theory Spec2Isabelle
  imports Main "HOL-Library.Word"
begin

section \<open>Error numbers and error text (\<^verbatim>\<open>web100.c\<close>)\<close>

text \<open>
  The library reports errors through small integer codes. Their numbering is the order of
  the entries of \<^verbatim>\<open>web100_sys_errlist\<close>, whose comments name the code of each entry.
\<close>

definition WEB100_ERR_SUCCESS :: int where "WEB100_ERR_SUCCESS = 0"
definition WEB100_ERR_SYS :: int where "WEB100_ERR_SYS = 1"
definition WEB100_ERR_AGENT_TYPE :: int where "WEB100_ERR_AGENT_TYPE = 2"
definition WEB100_ERR_NOMEM :: int where "WEB100_ERR_NOMEM = 3"
definition WEB100_ERR_NOCONNECTION :: int where "WEB100_ERR_NOCONNECTION = 4"
definition WEB100_ERR_INVAL :: int where "WEB100_ERR_INVAL = 5"
definition WEB100_ERR_HEADER :: int where "WEB100_ERR_HEADER = 6"
definition WEB100_ERR_NOVAR :: int where "WEB100_ERR_NOVAR = 7"

text \<open>
  \<^verbatim>\<open>web100_sys_errlist\<close>. The macro \<^verbatim>\<open>WEB100_HEADER_FILE\<close> is declared in a header
  that is not among the sources, so the path it expands to is the parameter \<open>hf\<close>.
\<close>

definition web100_sys_errlist :: "string \<Rightarrow> string list" where
  "web100_sys_errlist hf =
     [''success'',
      ''system error'',
      ''unsupported agent type'',
      ''no memory'',
      ''unable to open connection stats'',
      ''invalid arguments'',
      ''could not parse '' @ hf,
      ''variable not found'']"

text \<open>\<^verbatim>\<open>web100_sys_nerr = ARRAYSIZE(web100_sys_errlist)\<close>: the number of entries.\<close>

definition web100_sys_nerr :: int where
  "web100_sys_nerr = int (length (web100_sys_errlist []))"

text \<open>
  \<^verbatim>\<open>web100_strerror\<close>. The argument is a C \<^verbatim>\<open>int\<close>; only comparisons are made on it, so
  it is an \<open>int\<close> here. The array is indexed only behind the range check.
\<close>

definition web100_strerror :: "string \<Rightarrow> int \<Rightarrow> string" where
  "web100_strerror hf errnum =
     (if errnum < 0 \<or> errnum \<ge> web100_sys_nerr then ''unknown error''
      else web100_sys_errlist hf ! nat errnum)"


section \<open>C strings\<close>

text \<open>
  A \<^verbatim>\<open>char\<close> array is a \<open>string\<close> holding its bytes. The C string it holds ends before
  the first NUL byte; the end of the list counts as a terminator (the model does not read
  past an array).
\<close>

definition c_str :: "string \<Rightarrow> string" where
  "c_str s = takeWhile (\<lambda>c. c \<noteq> CHR 0x00) s"

text \<open>\<^verbatim>\<open>strcmp\<close>: zero for equal C strings, else the sign of the first difference.\<close>

fun strcmp :: "string \<Rightarrow> string \<Rightarrow> int" where
  "strcmp [] [] = 0"
| "strcmp [] (b # bs) = (if b = CHR 0x00 then 0 else - 1)"
| "strcmp (a # as) [] = (if a = CHR 0x00 then 0 else 1)"
| "strcmp (a # as) (b # bs) =
     (if a \<noteq> b then (if (of_char a :: nat) < of_char b then - 1 else 1)
      else if a = CHR 0x00 then 0
      else strcmp as bs)"

text \<open>
  \<^verbatim>\<open>strncpy(dst, src, n)\<close> into a zeroed array: the first \<open>n\<close> bytes of the C string
  \<open>src\<close>; the NUL padding that follows is not kept in the model.
\<close>

definition strncpy :: "string \<Rightarrow> nat \<Rightarrow> string" where
  "strncpy src n = take n (c_str src)"


section \<open>The correlation join (\<^verbatim>\<open>connection_info.c\<close>)\<close>

text \<open>
  The address family of a record. \<^verbatim>\<open>WEB100_ADDRTYPE\<close> is an enumeration declared in
  \<^verbatim>\<open>web100.h\<close>, which is not among the sources; the field is filled from raw bytes, so it
  may hold a value that is neither of the two families the join tests for.
\<close>

datatype WEB100_ADDRTYPE =
  WEB100_ADDRTYPE_IPV4 | WEB100_ADDRTYPE_IPV6 | WEB100_ADDRTYPE_OTHER int

text \<open>
  \<^verbatim>\<open>struct web100_connection_spec\<close> and \<^verbatim>\<open>struct web100_connection_spec_v6\<close>, with the
  members the sources read and write. Ports and IPv4 addresses are unsigned 16 and 32 bit
  integers; an IPv6 address is a \<^verbatim>\<open>char\<close> array.
\<close>

record web100_connection_spec =
  dst_port :: "16 word"
  dst_addr :: "32 word"
  src_port :: "16 word"
  src_addr :: "32 word"

record web100_connection_spec_v6 =
  dst_port6 :: "16 word"
  dst_addr6 :: string
  src_port6 :: "16 word"
  src_addr6 :: string

text \<open>
  \<^verbatim>\<open>struct connection_info\<close>, declared in \<^verbatim>\<open>connection_info-int.h\<close> (not among the
  sources), with the members \<^verbatim>\<open>connection_info.c\<close> uses. The members \<^verbatim>\<open>spec\<close> and
  \<^verbatim>\<open>spec_v6\<close> are two fields, as the code names them. The link \<^verbatim>\<open>next\<close> is the list
  structure.
\<close>

record connection_info =
  ci_cid :: int
  ci_addrtype :: WEB100_ADDRTYPE
  ci_spec :: web100_connection_spec
  ci_spec_v6 :: web100_connection_spec_v6
  ci_cmdline :: string
  ci_pid :: int
  ci_uid :: nat
  ci_ino :: nat
  ci_state :: int

text \<open>
  A record after \<^verbatim>\<open>bzero\<close>: every member is zero. The address family member is
  assigned before the record is linked, in each of the three places that build one.
\<close>

definition zero_spec :: web100_connection_spec where
  "zero_spec = \<lparr>dst_port = 0, dst_addr = 0, src_port = 0, src_addr = 0\<rparr>"

definition zero_spec_v6 :: web100_connection_spec_v6 where
  "zero_spec_v6 = \<lparr>dst_port6 = 0, dst_addr6 = [], src_port6 = 0, src_addr6 = []\<rparr>"

definition bzero_info :: connection_info where
  "bzero_info =
     \<lparr>ci_cid = 0, ci_addrtype = WEB100_ADDRTYPE_OTHER 0, ci_spec = zero_spec,
      ci_spec_v6 = zero_spec_v6, ci_cmdline = [], ci_pid = 0, ci_uid = 0, ci_ino = 0,
      ci_state = 0\<rparr>"

text \<open>
  The two conditional \<^verbatim>\<open>memcpy\<close> calls that end each of the three places: the IPv4
  tuple is copied when the family is IPv4, the IPv6 tuple when it is IPv6.
\<close>

definition copy_spec :: "connection_info \<Rightarrow> connection_info \<Rightarrow> connection_info" where
  "copy_spec cid_data ci =
     (let ci1 = (if ci_addrtype ci = WEB100_ADDRTYPE_IPV4
                 then ci\<lparr>ci_spec := ci_spec cid_data\<rparr> else ci)
      in if ci_addrtype ci1 = WEB100_ADDRTYPE_IPV6
         then ci1\<lparr>ci_spec_v6 := ci_spec_v6 cid_data\<rparr> else ci1)"

text \<open>The test of the inner \<^verbatim>\<open>for\<close> loop over the socket table (lines 302 to 311).\<close>

definition tuple_match :: "connection_info \<Rightarrow> connection_info \<Rightarrow> bool" where
  "tuple_match tcp_data cid_data \<longleftrightarrow>
     (ci_addrtype tcp_data = WEB100_ADDRTYPE_IPV4 \<and>
        (dst_port (ci_spec tcp_data) = dst_port (ci_spec cid_data) \<and>
         dst_addr (ci_spec tcp_data) = dst_addr (ci_spec cid_data) \<and>
         src_port (ci_spec tcp_data) = src_port (ci_spec cid_data))) \<or>
     (ci_addrtype tcp_data = WEB100_ADDRTYPE_IPV6 \<and>
        (dst_port6 (ci_spec_v6 tcp_data) = dst_port6 (ci_spec_v6 cid_data) \<and>
         strcmp (dst_addr6 (ci_spec_v6 tcp_data)) (dst_addr6 (ci_spec_v6 cid_data)) = 0 \<and>
         src_port6 (ci_spec_v6 tcp_data) = src_port6 (ci_spec_v6 cid_data)))"

text \<open>The record built for a descriptor entry of the same inode (lines 320 to 334).\<close>

definition fd_record ::
  "connection_info \<Rightarrow> connection_info \<Rightarrow> connection_info \<Rightarrow> connection_info" where
  "fd_record cid_data tcp_data fd_data =
     copy_spec cid_data
       (bzero_info\<lparr>ci_pid := ci_pid fd_data,
                   ci_cmdline := strncpy (ci_cmdline fd_data) 256,
                   ci_uid := ci_uid tcp_data,
                   ci_state := ci_state tcp_data,
                   ci_cid := ci_cid cid_data,
                   ci_addrtype := ci_addrtype cid_data\<rparr>)"

text \<open>The record built when no descriptor entry has the inode (lines 341 to 355).\<close>

definition nofd_record :: "connection_info \<Rightarrow> connection_info \<Rightarrow> connection_info" where
  "nofd_record cid_data tcp_data =
     copy_spec cid_data
       (bzero_info\<lparr>ci_pid := 0,
                   ci_cmdline := [],
                   ci_uid := ci_uid tcp_data,
                   ci_state := ci_state tcp_data,
                   ci_cid := ci_cid cid_data,
                   ci_addrtype := ci_addrtype cid_data\<rparr>)"

text \<open>The record built when no socket entry matched (lines 364 to 373).\<close>

definition residual_record :: "connection_info \<Rightarrow> connection_info" where
  "residual_record cid_data =
     copy_spec cid_data
       (bzero_info\<lparr>ci_cid := ci_cid cid_data, ci_addrtype := ci_addrtype cid_data\<rparr>)"

text \<open>
  The loop over the descriptor list. The state is the flag \<^verbatim>\<open>fd_entry\<close> and the result
  list \<^verbatim>\<open>res\<close>, to which a new record is linked at the head. The result of \<^verbatim>\<open>malloc\<close> is
  not tested in the collation, so allocation is taken to succeed there.
\<close>

fun fd_loop ::
  "connection_info \<Rightarrow> connection_info \<Rightarrow> connection_info list \<Rightarrow>
   int \<times> connection_info list \<Rightarrow> int \<times> connection_info list" where
  "fd_loop cid_data tcp_data [] (fd_entry, res) = (fd_entry, res)"
| "fd_loop cid_data tcp_data (fd_data # fd_next) (fd_entry, res) =
     (if ci_ino fd_data = ci_ino tcp_data
      then fd_loop cid_data tcp_data fd_next (1, fd_record cid_data tcp_data fd_data # res)
      else fd_loop cid_data tcp_data fd_next (fd_entry, res))"

text \<open>The body run for a socket entry that passed the test (lines 314 to 359).\<close>

definition matched_body ::
  "connection_info \<Rightarrow> connection_info \<Rightarrow> connection_info list \<Rightarrow>
   connection_info list \<Rightarrow> connection_info list" where
  "matched_body cid_data tcp_data fd_head res =
     (case fd_loop cid_data tcp_data fd_head (0, res) of
        (fd_entry, res') \<Rightarrow>
          if fd_entry = 0 then nofd_record cid_data tcp_data # res' else res')"

text \<open>The loop over the socket table, with the flag \<^verbatim>\<open>tcp_entry\<close>.\<close>

fun tcp_loop ::
  "connection_info \<Rightarrow> connection_info list \<Rightarrow> connection_info list \<Rightarrow>
   int \<times> connection_info list \<Rightarrow> int \<times> connection_info list" where
  "tcp_loop cid_data [] fd_head (tcp_entry, res) = (tcp_entry, res)"
| "tcp_loop cid_data (tcp_data # tcp_next) fd_head (tcp_entry, res) =
     (if tuple_match tcp_data cid_data
      then tcp_loop cid_data tcp_next fd_head (1, matched_body cid_data tcp_data fd_head res)
      else tcp_loop cid_data tcp_next fd_head (tcp_entry, res))"

text \<open>
  The outer \<^verbatim>\<open>while\<close> loop over the catalog records (lines 299 to 381), from the three
  lists to the result list.
\<close>

fun collate ::
  "connection_info list \<Rightarrow> connection_info list \<Rightarrow> connection_info list \<Rightarrow>
   connection_info list \<Rightarrow> connection_info list" where
  "collate [] tcp_head fd_head res = res"
| "collate (cid_data # cid_next) tcp_head fd_head res =
     (case tcp_loop cid_data tcp_head fd_head (0, res) of
        (tcp_entry, res') \<Rightarrow>
          collate cid_next tcp_head fd_head
            (if tcp_entry = 0 then residual_record cid_data # res' else res'))"

text \<open>
  The match as the specification words it, to compare with the test of the code: the
  socket entry has the address family of the catalog record, and destination address,
  destination port and source port are equal, the IPv4 addresses as 4-byte values and the
  IPv6 addresses as texts.
\<close>

definition spec_match :: "connection_info \<Rightarrow> connection_info \<Rightarrow> bool" where
  "spec_match tcp_data cid_data \<longleftrightarrow>
     ci_addrtype tcp_data = ci_addrtype cid_data \<and>
     (case ci_addrtype cid_data of
        WEB100_ADDRTYPE_IPV4 \<Rightarrow>
          dst_addr (ci_spec tcp_data) = dst_addr (ci_spec cid_data) \<and>
          dst_port (ci_spec tcp_data) = dst_port (ci_spec cid_data) \<and>
          src_port (ci_spec tcp_data) = src_port (ci_spec cid_data)
      | WEB100_ADDRTYPE_IPV6 \<Rightarrow>
          c_str (dst_addr6 (ci_spec_v6 tcp_data)) = c_str (dst_addr6 (ci_spec_v6 cid_data)) \<and>
          dst_port6 (ci_spec_v6 tcp_data) = dst_port6 (ci_spec_v6 cid_data) \<and>
          src_port6 (ci_spec_v6 tcp_data) = src_port6 (ci_spec_v6 cid_data)
      | WEB100_ADDRTYPE_OTHER n \<Rightarrow> False)"


section \<open>The schema: agents, groups and variables (\<^verbatim>\<open>web100.c\<close>)\<close>

text \<open>
  \<^verbatim>\<open>WEB100_TYPE\<close> with the enumerators that \<^verbatim>\<open>size_from_type\<close> names. The member is read
  from the header file as a decimal integer, so it may hold a value that is none of them.
\<close>

datatype WEB100_TYPE =
    WEB100_TYPE_INTEGER
  | WEB100_TYPE_INTEGER32
  | WEB100_TYPE_IP_ADDRESS
  | WEB100_TYPE_COUNTER32
  | WEB100_TYPE_GAUGE32
  | WEB100_TYPE_UNSIGNED32
  | WEB100_TYPE_TIME_TICKS
  | WEB100_TYPE_COUNTER64
  | WEB100_TYPE_UNSIGNED16
  | WEB100_TYPE_OTHER int

text \<open>
  \<^verbatim>\<open>size_from_type\<close>. The default branch is \<^verbatim>\<open>assert(FALSE)\<close>, which ends the program;
  it is the result \<open>None\<close>.
\<close>

fun size_from_type :: "WEB100_TYPE \<Rightarrow> nat option" where
  "size_from_type WEB100_TYPE_INTEGER = Some 4"
| "size_from_type WEB100_TYPE_INTEGER32 = Some 4"
| "size_from_type WEB100_TYPE_IP_ADDRESS = Some 4"
| "size_from_type WEB100_TYPE_COUNTER32 = Some 4"
| "size_from_type WEB100_TYPE_GAUGE32 = Some 4"
| "size_from_type WEB100_TYPE_UNSIGNED32 = Some 4"
| "size_from_type WEB100_TYPE_TIME_TICKS = Some 4"
| "size_from_type WEB100_TYPE_COUNTER64 = Some 8"
| "size_from_type WEB100_TYPE_UNSIGNED16 = Some 2"
| "size_from_type (WEB100_TYPE_OTHER t) = None"

text \<open>
  How a call ends: it returns, it stops at a failed assertion, or the C program has left
  defined behaviour (a read outside a buffer, a conversion that does not fit).
\<close>

datatype 'a outcome = Return 'a | Assert_Failed | Undefined

datatype WEB100_AGENT_TYPE = WEB100_AGENT_TYPE_LOCAL | WEB100_AGENT_TYPE_OTHER int

type_synonym addr = nat
type_synonym byte = "8 word"

text \<open>
  Pointers to agents and groups. The code compares such pointers for equality and reads
  through them members that are set once, when the object is made. A pointer is modelled
  by the address of the object together with those members.
\<close>

record agent_ref =
  agent_addr :: addr
  agent_type :: WEB100_AGENT_TYPE

record group_ref =
  group_addr :: addr
  group_name :: string
  group_agent :: agent_ref

text \<open>
  \<^verbatim>\<open>web100_var\<close>, \<^verbatim>\<open>web100_group\<close>, \<^verbatim>\<open>web100_connection\<close>, \<^verbatim>\<open>web100_agent\<close> and
  \<^verbatim>\<open>web100_snapshot\<close>. The links \<^verbatim>\<open>info.local.next\<close> are the list structure:
  \<open>var_head\<close>, \<open>group_head\<close> and \<open>connection_head\<close> are the lists that start at the
  pointer of that name, the empty list being \<^verbatim>\<open>NULL\<close>.
\<close>

record web100_var =
  var_name :: string
  var_type :: WEB100_TYPE
  var_offset :: int
  var_group :: group_ref

record web100_group =
  group_hdr :: group_ref
  group_size :: int
  group_nvars :: int
  var_head :: "web100_var list"

record web100_connection =
  conn_agent :: agent_ref
  conn_cid :: int
  conn_spec :: web100_connection_spec

record web100_agent =
  agent_hdr :: agent_ref
  agent_version :: string
  group_head :: "web100_group list"
  connection_head :: "web100_connection list"



subsection \<open>Lookup by name\<close>

text \<open>
  The \<^verbatim>\<open>while\<close> loops of \<^verbatim>\<open>web100_group_find\<close> and \<^verbatim>\<open>web100_var_find\<close>: the pointer
  stops at the first object whose name compares equal, or runs to \<^verbatim>\<open>NULL\<close>.
\<close>

fun group_scan :: "web100_group list \<Rightarrow> string \<Rightarrow> web100_group option" where
  "group_scan [] name = None"
| "group_scan (gp # gp_next) name =
     (if strcmp (group_name (group_hdr gp)) name = 0 then Some gp
      else group_scan gp_next name)"

fun var_scan :: "web100_var list \<Rightarrow> string \<Rightarrow> web100_var option" where
  "var_scan [] name = None"
| "var_scan (vp # vp_next) name =
     (if strcmp (var_name vp) name = 0 then Some vp else var_scan vp_next name)"

text \<open>
  Both functions return the pointer (\<open>None\<close> is \<^verbatim>\<open>NULL\<close>) and assign the global
  \<^verbatim>\<open>web100_errno\<close>; the pair is the returned pointer and the value assigned.
\<close>

definition web100_group_find :: "web100_agent \<Rightarrow> string \<Rightarrow> web100_group option \<times> int" where
  "web100_group_find agent name =
     (if agent_type (agent_hdr agent) \<noteq> WEB100_AGENT_TYPE_LOCAL
      then (None, WEB100_ERR_AGENT_TYPE)
      else (group_scan (group_head agent) name, WEB100_ERR_SUCCESS))"

definition web100_var_find :: "web100_group \<Rightarrow> string \<Rightarrow> web100_var option \<times> int" where
  "web100_var_find grp name =
     (if agent_type (group_agent (group_hdr grp)) \<noteq> WEB100_AGENT_TYPE_LOCAL
      then (None, WEB100_ERR_AGENT_TYPE)
      else (var_scan (var_head grp) name, WEB100_ERR_SUCCESS))"


section \<open>Files and the global error number\<close>

text \<open>
  The state the library works on: the files and directories of the instrumentation tree,
  the calls made on them (newest first), and the global \<^verbatim>\<open>web100_errno\<close>. A path that has
  no file cannot be opened, for reading or for writing: the files of the tree are made by
  the kernel. \<open>w_wfail\<close> holds the paths on which a write fails.
\<close>

datatype io_event =
    Io_opendir string
  | Io_closedir string
  | Io_fopen string string
  | Io_fseek string int
  | Io_fread string nat
  | Io_fwrite string "byte list"
  | Io_fclose string
  | Io_perror string

record world =
  w_files :: "string \<Rightarrow> byte list option"
  w_dirs :: "string \<Rightarrow> string list option"
  w_wfail :: "string set"
  w_log :: "io_event list"
  web100_errno :: int

definition io :: "io_event \<Rightarrow> world \<Rightarrow> world" where
  "io e w = w\<lparr>w_log := e # w_log w\<rparr>"

text \<open>\<^verbatim>\<open>sprintf\<close> with \<^verbatim>\<open>%d\<close>: the decimal digits of an integer, with a minus sign.\<close>

definition digit_char :: "nat \<Rightarrow> char" where
  "digit_char d = ''0123456789'' ! d"

fun digits_of :: "nat \<Rightarrow> string" where
  "digits_of n =
     (if n < 10 then [digit_char n] else digits_of (n div 10) @ [digit_char (n mod 10)])"

definition show_int :: "int \<Rightarrow> string" where
  "show_int i = (if i < 0 then CHR ''-'' # digits_of (nat (- i)) else digits_of (nat i))"

text \<open>
  The file name built by \<^verbatim>\<open>sprintf(filename, "%s/%d/%s", WEB100_ROOT_DIR, cid, name)\<close>.
  The macro \<^verbatim>\<open>WEB100_ROOT_DIR\<close> is declared in a header that is not among the sources;
  the directory it names is the parameter \<open>root\<close>.
\<close>

definition data_filename :: "string \<Rightarrow> int \<Rightarrow> string \<Rightarrow> string" where
  "data_filename root cid name = root @ ''/'' @ show_int cid @ ''/'' @ c_str name"

text \<open>
  A buffer passed as \<^verbatim>\<open>void *\<close> is the list of the bytes from that address on. Storing
  \<open>bytes\<close> at its start replaces as many bytes as are stored.
\<close>

definition store :: "byte list \<Rightarrow> byte list \<Rightarrow> byte list" where
  "store bytes buf = bytes @ drop (length bytes) buf"


section \<open>Raw access to a variable of a connection (\<^verbatim>\<open>web100.c\<close>)\<close>

text \<open>
  \<^verbatim>\<open>web100_raw_read\<close>. The result is the returned integer, the buffer and the state. A
  read of one item of \<open>n\<close> bytes succeeds when \<open>n\<close> bytes are left at the position; a short
  read stores the bytes there are.
\<close>

definition web100_raw_read ::
  "string \<Rightarrow> web100_var \<Rightarrow> web100_connection \<Rightarrow> byte list \<Rightarrow> world \<Rightarrow>
   (int \<times> byte list \<times> world) outcome" where
  "web100_raw_read root var conn buf w =
     (if agent_addr (group_agent (var_group var)) \<noteq> agent_addr (conn_agent conn)
      then Return (- WEB100_ERR_INVAL, buf, w\<lparr>web100_errno := WEB100_ERR_INVAL\<rparr>)
      else if agent_type (conn_agent conn) \<noteq> WEB100_AGENT_TYPE_LOCAL
      then Return (- WEB100_ERR_AGENT_TYPE, buf, w\<lparr>web100_errno := WEB100_ERR_AGENT_TYPE\<rparr>)
      else
        let filename = data_filename root (conn_cid conn) (group_name (var_group var));
            w1 = io (Io_fopen filename ''r'') w
        in case w_files w1 filename of
             None \<Rightarrow>
               Return (- WEB100_ERR_NOCONNECTION, buf,
                       w1\<lparr>web100_errno := WEB100_ERR_NOCONNECTION\<rparr>)
           | Some content \<Rightarrow>
               let w2 = io (Io_fseek filename (var_offset var)) w1
               in if var_offset var < 0
                  then Return (- WEB100_ERR_SYS, buf,
                         (io (Io_perror ''web100_raw_read: fseek'') w2)
                           \<lparr>web100_errno := WEB100_ERR_SYS\<rparr>)
                  else
                    case size_from_type (var_type var) of
                      None \<Rightarrow> Assert_Failed
                    | Some n \<Rightarrow>
                        let bytes = take n (drop (nat (var_offset var)) content);
                            w3 = io (Io_fread filename n) w2
                        in if length bytes \<noteq> n
                           then Return (- WEB100_ERR_SYS, store bytes buf,
                                  (io (Io_perror ''web100_raw_read: fread'') w3)
                                    \<lparr>web100_errno := WEB100_ERR_SYS\<rparr>)
                           else Return (WEB100_ERR_SUCCESS, store bytes buf,
                                  io (Io_fclose filename) w3))"

text \<open>
  \<^verbatim>\<open>web100_raw_write\<close>. The file is opened with mode \<^verbatim>\<open>"w"\<close>, which empties it; the
  bytes are then written at the offset of the variable, behind a gap of zero bytes.
\<close>

definition web100_raw_write ::
  "string \<Rightarrow> web100_var \<Rightarrow> web100_connection \<Rightarrow> byte list \<Rightarrow> world \<Rightarrow>
   (int \<times> world) outcome" where
  "web100_raw_write root var conn buf w =
     (if agent_addr (group_agent (var_group var)) \<noteq> agent_addr (conn_agent conn)
      then Return (- WEB100_ERR_INVAL, w\<lparr>web100_errno := WEB100_ERR_INVAL\<rparr>)
      else if agent_type (conn_agent conn) \<noteq> WEB100_AGENT_TYPE_LOCAL
      then Return (- WEB100_ERR_AGENT_TYPE, w\<lparr>web100_errno := WEB100_ERR_AGENT_TYPE\<rparr>)
      else
        let filename = data_filename root (conn_cid conn) (group_name (var_group var));
            w1 = io (Io_fopen filename ''w'') w
        in case w_files w1 filename of
             None \<Rightarrow>
               Return (- WEB100_ERR_NOCONNECTION,
                       w1\<lparr>web100_errno := WEB100_ERR_NOCONNECTION\<rparr>)
           | Some content \<Rightarrow>
               let w2 = io (Io_fseek filename (var_offset var))
                          (w1\<lparr>w_files := (w_files w1)(filename := Some [])\<rparr>)
               in if var_offset var < 0
                  then Return (- WEB100_ERR_SYS,
                         (io (Io_perror ''web100_raw_write: fseek'') w2)
                           \<lparr>web100_errno := WEB100_ERR_SYS\<rparr>)
                  else
                    case size_from_type (var_type var) of
                      None \<Rightarrow> Assert_Failed
                    | Some n \<Rightarrow>
                        let bytes = take n buf;
                            w3 = io (Io_fwrite filename bytes) w2
                        in if filename \<in> w_wfail w3
                           then Return (- WEB100_ERR_SYS,
                                  (io (Io_perror ''web100_raw_write: fread'') w3)
                                    \<lparr>web100_errno := WEB100_ERR_SYS\<rparr>)
                           else Return (WEB100_ERR_SUCCESS,
                                  io (Io_fclose filename)
                                    (w3\<lparr>w_files := (w_files w3)
                                          (filename :=
                                             Some (replicate (nat (var_offset var)) 0
                                                   @ bytes))\<rparr>)))"


section \<open>Snapshots and deltas (\<^verbatim>\<open>web100.c\<close>)\<close>


text \<open>
  An \<^verbatim>\<open>unsigned long long\<close> and its eight bytes in memory. The byte order is that of the
  machines the library is built for, little-endian: the first byte is the least
  significant.
\<close>

fun le_nat :: "byte list \<Rightarrow> nat" where
  "le_nat [] = 0"
| "le_nat (b # bs) = unat b + 256 * le_nat bs"





section \<open>The connection catalog (\<^verbatim>\<open>web100.c\<close>)\<close>

text \<open>
  The character classes of \<^verbatim>\<open><ctype.h>\<close> in the C locale, and \<^verbatim>\<open>atoi\<close>: white space is
  skipped, a sign is read, then the longest run of decimal digits, which may be empty
  (the value is then zero); what follows the digits is ignored. The C standard leaves the
  result undefined when the value does not fit an \<^verbatim>\<open>int\<close> (32 bits); that is \<open>None\<close>.
\<close>

definition isspace :: "char \<Rightarrow> bool" where
  "isspace c \<longleftrightarrow> c \<in> set [CHR '' '', CHR 0x09, CHR 0x0A, CHR 0x0B, CHR 0x0C, CHR 0x0D]"

definition isdigit :: "char \<Rightarrow> bool" where
  "isdigit c \<longleftrightarrow> c \<in> set ''0123456789''"

definition digit_val :: "char \<Rightarrow> nat" where
  "digit_val c = of_char c - 48"

definition dec_val :: "string \<Rightarrow> nat" where
  "dec_val ds = foldl (\<lambda>acc c. 10 * acc + digit_val c) 0 ds"

definition INT_MAX :: int where "INT_MAX = 2147483647"
definition INT_MIN :: int where "INT_MIN = - 2147483648"

fun skip_sign :: "string \<Rightarrow> bool \<times> string" where
  "skip_sign [] = (False, [])"
| "skip_sign (c # cs) =
     (if c = CHR ''-'' then (True, cs)
      else if c = CHR ''+'' then (False, cs)
      else (False, c # cs))"

definition atoi :: "string \<Rightarrow> int option" where
  "atoi s =
     (case skip_sign (dropWhile isspace s) of
        (neg, r) \<Rightarrow>
          let v = int (dec_val (takeWhile isdigit r));
              x = (if neg then - v else v)
          in if INT_MIN \<le> x \<and> x \<le> INT_MAX then Some x else None)"

text \<open>
  The bytes of a member of the connection spec, as \<^verbatim>\<open>fread\<close> stores them, and the value
  of the member (little-endian host).
\<close>

definition word_of_bytes :: "byte list \<Rightarrow> 'a::len word" where
  "word_of_bytes bs = of_nat (le_nat bs)"

text \<open>
  The bytes of a member of \<open>n\<close> bytes that holds \<open>v\<close>, and one call
  \<^verbatim>\<open>fread(&member, n, 1, fp)\<close> on the bytes \<open>avail\<close> left in the file: the bytes that are
  there, at most \<open>n\<close>, are stored over the first bytes of the member, the rest of the
  member keeps what it held; the call gives 1 only if all \<open>n\<close> bytes were there.
\<close>

definition word_bytes :: "nat \<Rightarrow> 'a::len word \<Rightarrow> byte list" where
  "word_bytes n v = map (\<lambda>i. of_nat (unat v div 256 ^ i)) [0..<n]"

definition fread_member :: "nat \<Rightarrow> byte list \<Rightarrow> 'a::len word \<Rightarrow> bool \<times> 'a word" where
  "fread_member n avail old =
     (let got = take n avail
      in (length got = n, word_of_bytes (store got (word_bytes n old))))"

text \<open>
  The four \<^verbatim>\<open>fread\<close> calls on the spec file, joined by \<^verbatim>\<open>||\<close>: destination port (2
  bytes), destination address (4), source port (2), source address (4), in the order of
  the file. The first call that does not get its bytes ends the sequence; it has stored
  the bytes it got, and the members after it keep what the fresh memory held. The result
  is whether all four succeeded, the spec, and the number of calls made.
\<close>

definition fread_spec ::
  "byte list \<Rightarrow> web100_connection_spec \<Rightarrow> bool \<times> web100_connection_spec \<times> nat" where
  "fread_spec content sp =
     (case fread_member 2 content (dst_port sp) of
        (ok1, v1) \<Rightarrow>
          let sp1 = sp\<lparr>dst_port := v1\<rparr>
          in if \<not> ok1 then (False, sp1, 1)
             else
               (case fread_member 4 (drop 2 content) (dst_addr sp1) of
                  (ok2, v2) \<Rightarrow>
                    let sp2 = sp1\<lparr>dst_addr := v2\<rparr>
                    in if \<not> ok2 then (False, sp2, 2)
                       else
                         (case fread_member 2 (drop 6 content) (src_port sp2) of
                            (ok3, v3) \<Rightarrow>
                              let sp3 = sp2\<lparr>src_port := v3\<rparr>
                              in if \<not> ok3 then (False, sp3, 3)
                                 else
                                   (case fread_member 4 (drop 8 content) (src_addr sp3) of
                                      (ok4, v4) \<Rightarrow> (ok4, sp3\<lparr>src_addr := v4\<rparr>, 4)))))"

definition log_freads :: "string \<Rightarrow> nat \<Rightarrow> world \<Rightarrow> world" where
  "log_freads filename calls w =
     w\<lparr>w_log := rev (map (Io_fread filename) (take calls [2, 4, 2, 4])) @ w_log w\<rparr>"

text \<open>
  How one pass through the body of the \<^verbatim>\<open>while\<close> loop ends: the loop goes on, or the
  function returns with a code.
\<close>

datatype 'a step = Next 'a | Exit int 'a

text \<open>
  The state of the loop of \<^verbatim>\<open>refresh_connections\<close>: the results that the coming calls of
  \<^verbatim>\<open>malloc\<close> give (\<open>None\<close> is \<^verbatim>\<open>NULL\<close>, \<open>Some sp\<close> is fresh memory whose spec member
  holds \<open>sp\<close>), the list at \<^verbatim>\<open>connection_head\<close>, and the files.
\<close>

type_synonym conn_scan =
  "web100_connection_spec option list \<times> web100_connection list \<times> world"

text \<open>
  The body of the loop for the directory entry \<open>d_name\<close>. The new connection is linked
  at the head of the list before its spec file is opened, so it is in the list when the
  function returns early.
\<close>

definition read_entry ::
  "string \<Rightarrow> agent_ref \<Rightarrow> string \<Rightarrow> conn_scan \<Rightarrow> conn_scan step outcome" where
  "read_entry root agent d_name st =
     (case st of (ms, head, w) \<Rightarrow>
        case atoi d_name of
          None \<Rightarrow> Undefined
        | Some cid \<Rightarrow>
            if cid = 0 \<and> (case d_name of [] \<Rightarrow> True | c # cs \<Rightarrow> c \<noteq> CHR ''0'')
            then Return (Next (ms, head, w))
            else
              case ms of
                Some fresh # ms' \<Rightarrow>
                  let cp = \<lparr>conn_agent = agent, conn_cid = cid, conn_spec = fresh\<rparr>;
                      filename = root @ d_name @ ''/spec'';
                      w1 = io (Io_fopen filename ''r'') w
                  in (case w_files w1 filename of
                        None \<Rightarrow>
                          Return (Exit WEB100_ERR_SYS
                            (ms', cp # head,
                             io (Io_perror ''refresh_connections: fopen'') w1))
                      | Some content \<Rightarrow>
                          (case fread_spec content fresh of
                             (ok, sp, calls) \<Rightarrow>
                               let w2 = log_freads filename calls w1
                               in if \<not> ok
                                  then Return (Exit WEB100_ERR_SYS
                                         (ms', cp\<lparr>conn_spec := sp\<rparr> # head,
                                          io (Io_perror
                                                ''refresh_connections: bad spec file format'')
                                            (io (Io_perror ''fread'') w2)))
                                  else Return (Next
                                         (ms', cp\<lparr>conn_spec := sp\<rparr> # head,
                                          io (Io_fclose filename) w2))))
              | _ \<Rightarrow> Return (Exit WEB100_ERR_NOMEM (drop 1 ms, head, w)))"

text \<open>The loop over the entries that \<^verbatim>\<open>readdir\<close> gives, in its order.\<close>

fun readdir_loop ::
  "string \<Rightarrow> agent_ref \<Rightarrow> string list \<Rightarrow> conn_scan \<Rightarrow> conn_scan step outcome" where
  "readdir_loop root agent [] st = Return (Next st)"
| "readdir_loop root agent (d_name # ents) st =
     (case read_entry root agent d_name st of
        Return (Next st') \<Rightarrow> readdir_loop root agent ents st'
      | other \<Rightarrow> other)"

text \<open>
  \<^verbatim>\<open>refresh_connections\<close>. The list of the agent is freed first. The result is the
  returned code, the agent and the files. The directory is the one that the macro
  \<^verbatim>\<open>WEB100_ROOT_DIR\<close> names (parameter \<open>root\<close>).
\<close>

definition refresh_connections ::
  "string \<Rightarrow> web100_agent \<Rightarrow> web100_connection_spec option list \<Rightarrow> world \<Rightarrow>
   (int \<times> web100_agent \<times> world) outcome" where
  "refresh_connections root agent ms w =
     (let w1 = io (Io_opendir root) w
      in case w_dirs w1 root of
           None \<Rightarrow>
             Return (WEB100_ERR_SYS, agent\<lparr>connection_head := []\<rparr>,
                     io (Io_perror ''refresh_connections: opendir'') w1)
         | Some ents \<Rightarrow>
             (case readdir_loop root (agent_hdr agent) ents (ms, [], w1) of
                Return (Next (ms', head, w2)) \<Rightarrow>
                  Return (WEB100_ERR_SUCCESS, agent\<lparr>connection_head := head\<rparr>,
                          io (Io_closedir root) w2)
              | Return (Exit r (ms', head, w2)) \<Rightarrow>
                  Return (r, agent\<lparr>connection_head := head\<rparr>, w2)
              | Assert_Failed \<Rightarrow> Assert_Failed
              | Undefined \<Rightarrow> Undefined))"





section \<open>Attaching: the header file (\<^verbatim>\<open>web100.c\<close>)\<close>

text \<open>
  The conversions of \<^verbatim>\<open>fscanf\<close> that the parser uses, on the characters not yet read.
  Each gives the value read and the rest of the input, or \<open>None\<close> when nothing matches.
  \<^verbatim>\<open>%[^\n]\<close> reads up to the end of the line, at least one character; \<^verbatim>\<open>%s\<close> skips white
  space and reads the characters up to the next white space; \<^verbatim>\<open>%d\<close> skips white space and
  reads a sign and decimal digits. The two conversions of text are written without a
  field width: they store all the characters they read, and a terminating zero byte, into
  the array they are given, of \<open>cap\<close> bytes. A text of \<open>cap\<close> characters or more is
  written past the end of the array, which leaves defined behaviour.
\<close>

definition scan_line :: "nat \<Rightarrow> string \<Rightarrow> (string \<times> string) option outcome" where
  "scan_line cap inp =
     (case takeWhile (\<lambda>c. c \<noteq> CHR 0x0A) inp of
        [] \<Rightarrow> Return None
      | l \<Rightarrow>
          if cap \<le> length l then Undefined
          else Return (Some (l, dropWhile (\<lambda>c. c \<noteq> CHR 0x0A) inp)))"

definition scan_s :: "nat \<Rightarrow> string \<Rightarrow> (string \<times> string) option outcome" where
  "scan_s cap inp =
     (let r = dropWhile isspace inp
      in case takeWhile (\<lambda>c. \<not> isspace c) r of
           [] \<Rightarrow> Return None
         | tok \<Rightarrow>
             if cap \<le> length tok then Undefined
             else Return (Some (tok, dropWhile (\<lambda>c. \<not> isspace c) r)))"

definition scan_d :: "string \<Rightarrow> (int \<times> string) option" where
  "scan_d inp =
     (case skip_sign (dropWhile isspace inp) of
        (neg, r) \<Rightarrow>
          (case takeWhile isdigit r of
             [] \<Rightarrow> None
           | ds \<Rightarrow>
               Some (if neg then - int (dec_val ds) else int (dec_val ds),
                     dropWhile isdigit r)))"

text \<open>
  \<^verbatim>\<open>fscanf(header, "%s%d%d", vp->name, &vp->offset, &vp->type)\<close>: the record of a
  variable, when all three conversions succeed; \<open>cap\<close> is the size of the array
  \<^verbatim>\<open>vp->name\<close>. A number that does not fit an \<^verbatim>\<open>int\<close> leaves defined behaviour.
\<close>

definition scan_var ::
  "nat \<Rightarrow> string \<Rightarrow> (string \<times> int \<times> int \<times> string) option outcome" where
  "scan_var cap inp =
     (case scan_s cap inp of
        Return None \<Rightarrow> Return None
      | Return (Some (name, r1)) \<Rightarrow>
          (case scan_d r1 of
             None \<Rightarrow> Return None
           | Some (off, r2) \<Rightarrow>
               if off < INT_MIN \<or> INT_MAX < off then Undefined
               else
                 (case scan_d r2 of
                    None \<Rightarrow> Return None
                  | Some (ty, r3) \<Rightarrow>
                      if ty < INT_MIN \<or> INT_MAX < ty then Undefined
                      else Return (Some (name, off, ty, r3))))
      | Assert_Failed \<Rightarrow> Assert_Failed
      | Undefined \<Rightarrow> Undefined)"

text \<open>
  The sizes of the three character arrays that the parser writes to: \<^verbatim>\<open>agent->version\<close>,
  \<^verbatim>\<open>gp->name\<close> and \<^verbatim>\<open>vp->name\<close>. They are declared in \<^verbatim>\<open>web100.h\<close>, which is not among
  the sources.
\<close>

record array_sizes =
  version_size :: nat
  group_name_size :: nat
  var_name_size :: nat

text \<open>
  The state of the parsing loop. The pointer \<^verbatim>\<open>gp\<close> is \<^verbatim>\<open>NULL\<close> or points to the group
  under construction; that group is the head of the list of the agent unless it is the
  discarded one. \<open>hs_gp\<close> is the group \<^verbatim>\<open>gp\<close> points to, \<open>hs_discard\<close> the flag
  \<^verbatim>\<open>discard\<close>, \<open>hs_linked\<close> the groups of the list other than the one under construction,
  and \<open>hs_mallocs\<close> the results of the coming calls of \<^verbatim>\<open>malloc\<close> (an address, or \<open>None\<close>
  for \<^verbatim>\<open>NULL\<close>). \<open>group_list\<close> is the list at \<^verbatim>\<open>agent->info.local.group_head\<close>.
\<close>

record header_scan =
  hs_gp :: "web100_group option"
  hs_discard :: bool
  hs_linked :: "web100_group list"
  hs_mallocs :: "addr option list"

definition group_list :: "header_scan \<Rightarrow> web100_group list" where
  "group_list s =
     (case hs_gp s of
        None \<Rightarrow> hs_linked s
      | Some gp \<Rightarrow> if hs_discard s then hs_linked s else gp # hs_linked s)"

text \<open>
  The end of the branch for a variable (lines 185 to 189): the size of the type is added
  to the size of the group, the count of variables goes up by one, and the variable is
  linked at the head of the list of the group.
\<close>

definition link_var :: "web100_group \<Rightarrow> web100_var \<Rightarrow> nat \<Rightarrow> web100_group" where
  "link_var gp vp n =
     gp\<lparr>group_size := group_size gp + int n,
        group_nvars := group_nvars gp + 1,
        var_head := vp # var_head gp\<rparr>"

text \<open>
  One pass through the body of the loop. \<open>tyof\<close> gives the enumerator of \<^verbatim>\<open>WEB100_TYPE\<close>
  that an integer read from the header stands for; the numbering is declared in
  \<^verbatim>\<open>web100.h\<close>, which is not among the sources. The end of the input leaves the loop; the
  statement after the loop sets the error number to \<^verbatim>\<open>WEB100_ERR_SUCCESS\<close>. The list of
  variables of the discarded group starts at a pointer the code does not initialise; that
  list is not reachable from the agent.
\<close>

definition header_step ::
  "agent_ref \<Rightarrow> (int \<Rightarrow> WEB100_TYPE) \<Rightarrow> array_sizes \<Rightarrow> header_scan \<Rightarrow> string \<Rightarrow>
   (header_scan \<times> string) step outcome" where
  "header_step agent tyof sz s inp =
     (case dropWhile isspace inp of
        [] \<Rightarrow> Return (Exit WEB100_ERR_SUCCESS (s, []))
      | c # rest \<Rightarrow>
          if c = CHR ''/'' then
            (case hs_mallocs s of
               Some a # ms \<Rightarrow>
                 (case scan_s (group_name_size sz) rest of
                    Return None \<Rightarrow>
                      Return (Exit WEB100_ERR_HEADER (s\<lparr>hs_mallocs := ms\<rparr>, rest))
                  | Return (Some (name, inp')) \<Rightarrow>
                      Return (Next
                        (\<lparr>hs_gp = Some
                            \<lparr>group_hdr = \<lparr>group_addr = a, group_name = name,
                                           group_agent = agent\<rparr>,
                             group_size = 0, group_nvars = 0, var_head = []\<rparr>,
                          hs_discard = (strcmp name ''spec'' = 0),
                          hs_linked = group_list s,
                          hs_mallocs = ms\<rparr>,
                         inp'))
                  | Assert_Failed \<Rightarrow> Assert_Failed
                  | Undefined \<Rightarrow> Undefined)
             | _ \<Rightarrow> Return (Exit WEB100_ERR_NOMEM (s, rest)))
          else
            (case hs_gp s of
               None \<Rightarrow> Return (Exit WEB100_ERR_HEADER (s, c # rest))
             | Some gp \<Rightarrow>
                 (case hs_mallocs s of
                    Some a # ms \<Rightarrow>
                      (case scan_var (var_name_size sz) (c # rest) of
                         Return None \<Rightarrow>
                           Return (Exit WEB100_ERR_HEADER (s\<lparr>hs_mallocs := ms\<rparr>, c # rest))
                       | Return (Some (name, off, ty, inp')) \<Rightarrow>
                           (case size_from_type (tyof ty) of
                              None \<Rightarrow> Assert_Failed
                            | Some n \<Rightarrow>
                                Return (Next
                                  (s\<lparr>hs_gp := Some
                                       (link_var gp
                                          \<lparr>var_name = name, var_type = tyof ty,
                                           var_offset = off, var_group = group_hdr gp\<rparr>
                                          n),
                                     hs_mallocs := ms\<rparr>,
                                   inp')))
                       | Assert_Failed \<Rightarrow> Assert_Failed
                       | Undefined \<Rightarrow> Undefined)
                  | _ \<Rightarrow> Return (Exit WEB100_ERR_NOMEM (s, c # rest)))))"

text \<open>Every pass that goes on has read at least one character.\<close>

lemma scan_s_length:
  "scan_s cap inp = Return (Some (tok, inp')) \<Longrightarrow> length inp' < length inp"
proof -
  assume a: "scan_s cap inp = Return (Some (tok, inp'))"
  let ?r = "dropWhile isspace inp"
  from a have t: "takeWhile (\<lambda>c. \<not> isspace c) ?r \<noteq> []"
    and i: "inp' = dropWhile (\<lambda>c. \<not> isspace c) ?r"
    by (auto simp: scan_s_def Let_def split: list.splits if_splits)
  have "length (takeWhile (\<lambda>c. \<not> isspace c) ?r) + length inp' = length ?r"
    unfolding i by (metis length_append takeWhile_dropWhile_id)
  moreover from t have "0 < length (takeWhile (\<lambda>c. \<not> isspace c) ?r)" by simp
  moreover have "length ?r \<le> length inp" by (rule length_dropWhile_le)
  ultimately show ?thesis by linarith
qed

lemma skip_sign_length: "skip_sign inp = (neg, r) \<Longrightarrow> length r \<le> length inp"
  by (cases inp) (auto split: if_splits)

lemma scan_d_length:
  "scan_d inp = Some (v, inp') \<Longrightarrow> length inp' \<le> length inp"
proof -
  assume a: "scan_d inp = Some (v, inp')"
  obtain neg r where sk: "skip_sign (dropWhile isspace inp) = (neg, r)"
    by (cases "skip_sign (dropWhile isspace inp)")
  with a have "inp' = dropWhile isdigit r"
    by (auto simp: scan_d_def split: list.splits)
  then have "length inp' \<le> length r" by (simp add: length_dropWhile_le)
  also have "\<dots> \<le> length (dropWhile isspace inp)" using sk by (rule skip_sign_length)
  also have "\<dots> \<le> length inp" by (rule length_dropWhile_le)
  finally show ?thesis .
qed

lemma scan_var_length:
  "scan_var cap inp = Return (Some (name, off, ty, inp')) \<Longrightarrow> length inp' < length inp"
  by (auto simp: scan_var_def split: option.splits if_splits outcome.splits
      dest!: scan_s_length scan_d_length)

lemma header_step_shorter:
  "header_step agent tyof sz s inp = Return (Next (s', inp')) \<Longrightarrow> length inp' < length inp"
proof -
  assume a: "header_step agent tyof sz s inp = Return (Next (s', inp'))"
  then obtain c rest where d: "dropWhile isspace inp = c # rest"
    by (cases "dropWhile isspace inp") (auto simp: header_step_def)
  have l: "length (c # rest) \<le> length inp"
    using length_dropWhile_le [of isspace inp] d by simp
  show ?thesis
  proof (cases "c = CHR ''/''")
    case True
    with a d obtain name where "scan_s (group_name_size sz) rest = Return (Some (name, inp'))"
      by (auto simp: header_step_def split: list.splits option.splits outcome.splits)
    from scan_s_length [OF this] l show ?thesis by simp
  next
    case False
    with a d obtain name off ty
      where "scan_var (var_name_size sz) (c # rest) = Return (Some (name, off, ty, inp'))"
      by (auto simp: header_step_def split: list.splits option.splits outcome.splits)
    from scan_var_length [OF this] l show ?thesis by simp
  qed
qed

text \<open>The \<^verbatim>\<open>while\<close> loop: the passes, up to the one that leaves it.\<close>

function header_loop ::
  "agent_ref \<Rightarrow> (int \<Rightarrow> WEB100_TYPE) \<Rightarrow> array_sizes \<Rightarrow> header_scan \<Rightarrow> string \<Rightarrow>
   (int \<times> header_scan) outcome" where
  "header_loop agent tyof sz s inp =
     (case header_step agent tyof sz s inp of
        Return (Next (s', inp')) \<Rightarrow> header_loop agent tyof sz s' inp'
      | Return (Exit r (s', inp')) \<Rightarrow> Return (r, s')
      | Assert_Failed \<Rightarrow> Assert_Failed
      | Undefined \<Rightarrow> Undefined)"
  by pat_completeness auto

termination
  by (relation "measure (\<lambda>(agent, tyof, sz, s, inp). length inp)")
     (auto dest: header_step_shorter)

text \<open>
  \<^verbatim>\<open>_web100_agent_attach_local\<close>. \<open>header\<close> is the text of the header file, \<open>None\<close> when
  it cannot be opened; \<open>fresh\<close> is the agent as \<^verbatim>\<open>malloc\<close> gives it: the code assigns its
  type and version but not its two list heads, so they are what the memory holds, and
  the first group of the header is linked in front of the list that the memory holds. The
  result is the error number and the returned pointer; on an error the agent is detached
  and the pointer is \<^verbatim>\<open>NULL\<close>.
\<close>

definition web100_agent_attach_local ::
  "string option \<Rightarrow> (int \<Rightarrow> WEB100_TYPE) \<Rightarrow> array_sizes \<Rightarrow> web100_agent \<Rightarrow>
   addr option list \<Rightarrow> (int \<times> web100_agent option) outcome" where
  "web100_agent_attach_local header tyof sz fresh mallocs =
     (case mallocs of
        Some a # ms \<Rightarrow>
          let agent = fresh\<lparr>agent_hdr :=
                        \<lparr>agent_addr = a, agent_type = WEB100_AGENT_TYPE_LOCAL\<rparr>\<rparr>
          in (case header of
                None \<Rightarrow> Return (WEB100_ERR_HEADER, None)
              | Some txt \<Rightarrow>
                  (case scan_line (version_size sz) txt of
                     Return None \<Rightarrow> Return (WEB100_ERR_HEADER, None)
                   | Return (Some (version, inp)) \<Rightarrow>
                       (case header_loop (agent_hdr agent) tyof sz
                               \<lparr>hs_gp = None, hs_discard = False,
                                hs_linked = group_head agent, hs_mallocs = ms\<rparr> inp of
                          Return (r, s) \<Rightarrow>
                            if r \<noteq> WEB100_ERR_SUCCESS then Return (r, None)
                            else Return (WEB100_ERR_SUCCESS,
                                   Some (agent\<lparr>agent_version := version,
                                               group_head := group_list s\<rparr>))
                        | Assert_Failed \<Rightarrow> Assert_Failed
                        | Undefined \<Rightarrow> Undefined)
                   | Assert_Failed \<Rightarrow> Assert_Failed
                   | Undefined \<Rightarrow> Undefined))
      | _ \<Rightarrow> Return (WEB100_ERR_NOMEM, None))"

text \<open>
  \<^verbatim>\<open>web100_group_head\<close> and \<^verbatim>\<open>web100_group_next\<close>, the enumeration of the groups: each
  returns a pointer into the list (the list from that group on, empty for \<^verbatim>\<open>NULL\<close>) and
  assigns the error number. \<^verbatim>\<open>web100_group_next\<close> reads through its argument, which must
  not be \<^verbatim>\<open>NULL\<close>.
\<close>

definition web100_group_head :: "web100_agent \<Rightarrow> web100_group list \<times> int" where
  "web100_group_head agent =
     (if agent_type (agent_hdr agent) \<noteq> WEB100_AGENT_TYPE_LOCAL
      then ([], WEB100_ERR_AGENT_TYPE)
      else (group_head agent, WEB100_ERR_SUCCESS))"

fun web100_group_next :: "web100_group list \<Rightarrow> (web100_group list \<times> int) outcome" where
  "web100_group_next [] = Undefined"
| "web100_group_next (gp # gp_next) =
     (if agent_type (group_agent (group_hdr gp)) \<noteq> WEB100_AGENT_TYPE_LOCAL
      then Return ([], WEB100_ERR_AGENT_TYPE)
      else Return (gp_next, WEB100_ERR_SUCCESS))"

text \<open>
  Header texts, for the statement of properties of the parser: the record of a variable
  (name, offset and type, the numbers as decimal numerals) on a line of its own, and a
  group as the line of its name followed by the records of its variables. A name is a
  text without white space and without a zero byte that fits, with its terminating zero
  byte, an array of \<open>cap\<close> bytes.
\<close>

definition var_text :: "string \<times> string \<times> string \<Rightarrow> string" where
  "var_text v = (case v of (name, off, ty) \<Rightarrow> name @ '' '' @ off @ '' '' @ ty @ [CHR 0x0A])"

definition group_text :: "string \<Rightarrow> (string \<times> string \<times> string) list \<Rightarrow> string" where
  "group_text name vars = CHR ''/'' # name @ [CHR 0x0A] @ concat (map var_text vars)"

definition numeral_ok :: "string \<Rightarrow> bool" where
  "numeral_ok ds \<longleftrightarrow> ds \<noteq> [] \<and> list_all isdigit ds \<and> int (dec_val ds) \<le> INT_MAX"

definition name_ok :: "nat \<Rightarrow> string \<Rightarrow> bool" where
  "name_ok cap name \<longleftrightarrow>
     name \<noteq> [] \<and> length name < cap \<and> list_all (\<lambda>c. \<not> isspace c \<and> c \<noteq> CHR 0x00) name"

definition var_ok ::
  "(int \<Rightarrow> WEB100_TYPE) \<Rightarrow> array_sizes \<Rightarrow> string \<times> string \<times> string \<Rightarrow> bool" where
  "var_ok tyof sz v =
     (case v of (name, off, ty) \<Rightarrow>
        name_ok (var_name_size sz) name \<and> hd name \<noteq> CHR ''/'' \<and> numeral_ok off \<and> numeral_ok ty \<and>
        size_from_type (tyof (int (dec_val ty))) \<noteq> None)"

definition parsed_var ::
  "(int \<Rightarrow> WEB100_TYPE) \<Rightarrow> group_ref \<Rightarrow> string \<times> string \<times> string \<Rightarrow> web100_var" where
  "parsed_var tyof hdr v =
     (case v of (name, off, ty) \<Rightarrow>
        \<lparr>var_name = name, var_type = tyof (int (dec_val ty)),
         var_offset = int (dec_val off), var_group = hdr\<rparr>)"

definition var_size :: "(int \<Rightarrow> WEB100_TYPE) \<Rightarrow> string \<times> string \<times> string \<Rightarrow> int" where
  "var_size tyof v =
     (case v of (name, off, ty) \<Rightarrow>
        (case size_from_type (tyof (int (dec_val ty))) of None \<Rightarrow> 0 | Some n \<Rightarrow> int n))"

definition parsed_group ::
  "(int \<Rightarrow> WEB100_TYPE) \<Rightarrow> group_ref \<Rightarrow> (string \<times> string \<times> string) list \<Rightarrow>
   web100_group" where
  "parsed_group tyof hdr vars =
     \<lparr>group_hdr = hdr,
      group_size = sum_list (map (var_size tyof) vars),
      group_nvars = int (length vars),
      var_head = rev (map (parsed_var tyof hdr) vars)\<rparr>"


section \<open>Properties\<close>

subsection \<open>Error text\<close>

lemmas web100_err_defs =
  WEB100_ERR_SUCCESS_def WEB100_ERR_SYS_def WEB100_ERR_AGENT_TYPE_def WEB100_ERR_NOMEM_def
  WEB100_ERR_NOCONNECTION_def WEB100_ERR_INVAL_def WEB100_ERR_HEADER_def WEB100_ERR_NOVAR_def

lemma web100_sys_nerr_8: "web100_sys_nerr = 8"
  by (simp add: web100_sys_nerr_def web100_sys_errlist_def)

lemma length_web100_sys_errlist: "length (web100_sys_errlist hf) = 8"
  by (simp add: web100_sys_errlist_def)

text \<open>
  Claim C10. \<^verbatim>\<open>web100_strerror\<close> is total over its integer argument. For an error number
  in the range from 0 up to, not including, the number of defined errors, the index is
  inside the table and the result is that table entry, the fixed message of the error.
  For every other error number, negative or too large, the result is the string
  \<^verbatim>\<open>unknown error\<close> and the table is not read.
\<close>

theorem web100_strerror_total:
  "(0 \<le> errnum \<and> errnum < web100_sys_nerr \<longrightarrow>
      nat errnum < length (web100_sys_errlist hf) \<and>
      web100_strerror hf errnum = web100_sys_errlist hf ! nat errnum \<and>
      web100_strerror hf errnum =
        (if errnum = WEB100_ERR_SUCCESS then ''success''
         else if errnum = WEB100_ERR_SYS then ''system error''
         else if errnum = WEB100_ERR_AGENT_TYPE then ''unsupported agent type''
         else if errnum = WEB100_ERR_NOMEM then ''no memory''
         else if errnum = WEB100_ERR_NOCONNECTION then ''unable to open connection stats''
         else if errnum = WEB100_ERR_INVAL then ''invalid arguments''
         else if errnum = WEB100_ERR_HEADER then ''could not parse '' @ hf
         else ''variable not found''))
   \<and> (errnum < 0 \<or> web100_sys_nerr \<le> errnum \<longrightarrow>
      web100_strerror hf errnum = ''unknown error'')"
proof (intro conjI impI)
  assume r: "0 \<le> errnum \<and> errnum < web100_sys_nerr"
  then have "errnum \<in> {0, 1, 2, 3, 4, 5, 6, 7}"
    by (auto simp: web100_sys_nerr_8)
  then show "web100_strerror hf errnum =
        (if errnum = WEB100_ERR_SUCCESS then ''success''
         else if errnum = WEB100_ERR_SYS then ''system error''
         else if errnum = WEB100_ERR_AGENT_TYPE then ''unsupported agent type''
         else if errnum = WEB100_ERR_NOMEM then ''no memory''
         else if errnum = WEB100_ERR_NOCONNECTION then ''unable to open connection stats''
         else if errnum = WEB100_ERR_INVAL then ''invalid arguments''
         else if errnum = WEB100_ERR_HEADER then ''could not parse '' @ hf
         else ''variable not found'')"
    by (auto simp: web100_strerror_def web100_sys_nerr_8 web100_sys_errlist_def
        web100_err_defs)
  from r show "nat errnum < length (web100_sys_errlist hf)"
    by (auto simp: length_web100_sys_errlist web100_sys_nerr_8)
  from r show "web100_strerror hf errnum = web100_sys_errlist hf ! nat errnum"
    by (simp add: web100_strerror_def)
next
  assume "errnum < 0 \<or> web100_sys_nerr \<le> errnum"
  then show "web100_strerror hf errnum = ''unknown error''"
    by (auto simp: web100_strerror_def)
qed

theorem web100_strerror_total_witness:
  "web100_strerror ''/proc/web100/header'' 6 = ''could not parse /proc/web100/header''
   \<and> web100_strerror ''/proc/web100/header'' (- 1) = ''unknown error''
   \<and> web100_strerror ''/proc/web100/header'' 8 = ''unknown error''"
  using web100_strerror_total [of 6 "''/proc/web100/header''"]
    web100_strerror_total [of "- 1" "''/proc/web100/header''"]
    web100_strerror_total [of 8 "''/proc/web100/header''"]
  by (simp add: web100_sys_nerr_8 web100_err_defs web100_sys_errlist_def)

subsection \<open>C strings and characters\<close>

lemma strcmp_eq_0_iff: "strcmp a b = 0 \<longleftrightarrow> c_str a = c_str b"
  by (induction a b rule: strcmp.induct) (auto simp: c_str_def)

lemma c_str_id: "CHR 0x00 \<notin> set s \<Longrightarrow> c_str s = s"
  by (auto simp: c_str_def takeWhile_eq_all_conv)

lemma isdigit_not_isspace: "isdigit c \<Longrightarrow> \<not> isspace c"
  by (auto simp: isdigit_def isspace_def)

lemma isdigit_not_sign: "isdigit c \<Longrightarrow> c \<noteq> CHR ''-'' \<and> c \<noteq> CHR ''+''"
  by (auto simp: isdigit_def)

lemma skip_sign_digits: "isdigit c \<Longrightarrow> skip_sign (c # cs) = (False, c # cs)"
  by (simp add: isdigit_not_sign)

lemma isspace_nl: "isspace (CHR 0x0A)" and isspace_sp: "isspace CHR '' ''"
  by (simp_all add: isspace_def)

lemma not_isdigit_space: "\<not> isdigit CHR '' ''" and not_isdigit_nl: "\<not> isdigit (CHR 0x0A)"
  by (simp_all add: isdigit_def)

lemma takeWhile_token:
  "list_all P tok \<Longrightarrow> \<not> P c \<Longrightarrow> takeWhile P (tok @ c # rest) = tok"
  by (induction tok) auto

lemma dropWhile_token:
  "list_all P tok \<Longrightarrow> \<not> P c \<Longrightarrow> dropWhile P (tok @ c # rest) = c # rest"
  by (induction tok) auto

subsection \<open>Lookup by name\<close>

lemma group_scan_find:
  "group_scan gs name = List.find (\<lambda>g. c_str (group_name (group_hdr g)) = c_str name) gs"
  by (induction gs) (auto simp: strcmp_eq_0_iff)

lemma var_scan_find:
  "var_scan vs name = List.find (\<lambda>v. c_str (var_name v) = c_str name) vs"
  by (induction vs) (auto simp: strcmp_eq_0_iff)

text \<open>
  Claim C8, as stated, fails on the code. The claim says that a lookup of a name that no
  entity has reports the condition as a named error. Both functions return \<^verbatim>\<open>NULL\<close> and
  assign \<^verbatim>\<open>WEB100_ERR_SUCCESS\<close> to the error number: here the agent has the one group
  \<^verbatim>\<open>Read\<close> and \<^verbatim>\<open>read\<close> is looked up, and a group without variables is searched for
  \<^verbatim>\<open>LocalAddressType\<close>.
\<close>

theorem find_not_found_is_success:
  "fst (web100_group_find
     \<lparr>agent_hdr = \<lparr>agent_addr = 1, agent_type = WEB100_AGENT_TYPE_LOCAL\<rparr>,
      agent_version = ''1.0'',
      group_head =
        [\<lparr>group_hdr = \<lparr>group_addr = 2, group_name = ''Read'',
             group_agent = \<lparr>agent_addr = 1, agent_type = WEB100_AGENT_TYPE_LOCAL\<rparr>\<rparr>,
          group_size = 0, group_nvars = 0, var_head = []\<rparr>],
      connection_head = []\<rparr> ''read'') = None
   \<and> snd (web100_group_find
     \<lparr>agent_hdr = \<lparr>agent_addr = 1, agent_type = WEB100_AGENT_TYPE_LOCAL\<rparr>,
      agent_version = ''1.0'',
      group_head =
        [\<lparr>group_hdr = \<lparr>group_addr = 2, group_name = ''Read'',
             group_agent = \<lparr>agent_addr = 1, agent_type = WEB100_AGENT_TYPE_LOCAL\<rparr>\<rparr>,
          group_size = 0, group_nvars = 0, var_head = []\<rparr>],
      connection_head = []\<rparr> ''read'') = WEB100_ERR_SUCCESS
   \<and> web100_var_find
       \<lparr>group_hdr = \<lparr>group_addr = 2, group_name = ''read'',
          group_agent = \<lparr>agent_addr = 1, agent_type = WEB100_AGENT_TYPE_LOCAL\<rparr>\<rparr>,
        group_size = 0, group_nvars = 0, var_head = []\<rparr> ''LocalAddressType''
     = (None, WEB100_ERR_SUCCESS)"
  by (simp add: web100_group_find_def web100_var_find_def)

text \<open>
  Claim C8, amended. For a local agent, \<^verbatim>\<open>web100_group_find\<close> and \<^verbatim>\<open>web100_var_find\<close>
  scan the list from its head and return the first entity whose name is, byte for byte,
  the name asked for (so the comparison is exact and distinguishes upper and lower case),
  with the error number set to \<^verbatim>\<open>WEB100_ERR_SUCCESS\<close>. When no entity has the name they
  return \<^verbatim>\<open>NULL\<close>, and the error number is \<^verbatim>\<open>WEB100_ERR_SUCCESS\<close> as well: the callers
  recognise the condition by the \<^verbatim>\<open>NULL\<close> result.
\<close>

theorem find_by_name:
  assumes "agent_type (agent_hdr agent) = WEB100_AGENT_TYPE_LOCAL"
    and "agent_type (group_agent (group_hdr grp)) = WEB100_AGENT_TYPE_LOCAL"
  shows "web100_group_find agent name =
           (List.find (\<lambda>g. c_str (group_name (group_hdr g)) = c_str name) (group_head agent),
            WEB100_ERR_SUCCESS)
         \<and> web100_var_find grp name =
           (List.find (\<lambda>v. c_str (var_name v) = c_str name) (var_head grp),
            WEB100_ERR_SUCCESS)
         \<and> ((\<forall>g\<in>set (group_head agent). c_str (group_name (group_hdr g)) \<noteq> c_str name) \<longrightarrow>
              web100_group_find agent name = (None, WEB100_ERR_SUCCESS))
         \<and> ((\<forall>v\<in>set (var_head grp). c_str (var_name v) \<noteq> c_str name) \<longrightarrow>
              web100_var_find grp name = (None, WEB100_ERR_SUCCESS))"
  using assms
  by (auto simp: web100_group_find_def web100_var_find_def group_scan_find var_scan_find
      find_None_iff)

theorem find_by_name_witness:
  "web100_group_find
     \<lparr>agent_hdr = \<lparr>agent_addr = 1, agent_type = WEB100_AGENT_TYPE_LOCAL\<rparr>,
      agent_version = ''1.0'',
      group_head =
        [\<lparr>group_hdr = \<lparr>group_addr = 2, group_name = ''read'',
             group_agent = \<lparr>agent_addr = 1, agent_type = WEB100_AGENT_TYPE_LOCAL\<rparr>\<rparr>,
          group_size = 4, group_nvars = 1,
          var_head = [\<lparr>var_name = ''PktsOut'', var_type = WEB100_TYPE_COUNTER32,
            var_offset = 0,
            var_group = \<lparr>group_addr = 2, group_name = ''read'',
              group_agent = \<lparr>agent_addr = 1, agent_type = WEB100_AGENT_TYPE_LOCAL\<rparr>\<rparr>\<rparr>]\<rparr>],
      connection_head = []\<rparr> ''READ'' = (None, WEB100_ERR_SUCCESS)
   \<and> web100_var_find
       \<lparr>group_hdr = \<lparr>group_addr = 2, group_name = ''read'',
             group_agent = \<lparr>agent_addr = 1, agent_type = WEB100_AGENT_TYPE_LOCAL\<rparr>\<rparr>,
          group_size = 4, group_nvars = 1,
          var_head = [\<lparr>var_name = ''PktsOut'', var_type = WEB100_TYPE_COUNTER32,
            var_offset = 0,
            var_group = \<lparr>group_addr = 2, group_name = ''read'',
              group_agent = \<lparr>agent_addr = 1, agent_type = WEB100_AGENT_TYPE_LOCAL\<rparr>\<rparr>\<rparr>]\<rparr>
       ''PktsOut''
     = (Some \<lparr>var_name = ''PktsOut'', var_type = WEB100_TYPE_COUNTER32,
            var_offset = 0,
            var_group = \<lparr>group_addr = 2, group_name = ''read'',
              group_agent = \<lparr>agent_addr = 1, agent_type = WEB100_AGENT_TYPE_LOCAL\<rparr>\<rparr>\<rparr>,
        WEB100_ERR_SUCCESS)"
proof -
  let ?hdr = "\<lparr>group_addr = 2, group_name = ''read'',
             group_agent = \<lparr>agent_addr = 1, agent_type = WEB100_AGENT_TYPE_LOCAL\<rparr>\<rparr>"
  let ?grp = "\<lparr>group_hdr = ?hdr, group_size = 4, group_nvars = 1,
          var_head = [\<lparr>var_name = ''PktsOut'', var_type = WEB100_TYPE_COUNTER32,
            var_offset = 0, var_group = ?hdr\<rparr>]\<rparr>"
  let ?agent = "\<lparr>agent_hdr = \<lparr>agent_addr = 1, agent_type = WEB100_AGENT_TYPE_LOCAL\<rparr>,
      agent_version = ''1.0'', group_head = [?grp], connection_head = []\<rparr>"
  have h1: "agent_type (agent_hdr ?agent) = WEB100_AGENT_TYPE_LOCAL" by simp
  have h2: "agent_type (group_agent (group_hdr ?grp)) = WEB100_AGENT_TYPE_LOCAL" by simp
  have n: "\<forall>g\<in>set (group_head ?agent). c_str (group_name (group_hdr g)) \<noteq> c_str ''READ''"
    by (simp add: c_str_def)
  from find_by_name [OF h1 h2, of "''READ''"] n
  have a: "web100_group_find ?agent ''READ'' = (None, WEB100_ERR_SUCCESS)"
    by blast
  from find_by_name [OF h1 h2, of "''PktsOut''"]
  have b: "web100_var_find ?grp ''PktsOut'' =
      (List.find (\<lambda>v. c_str (var_name v) = c_str ''PktsOut'') (var_head ?grp),
       WEB100_ERR_SUCCESS)"
    by blast
  from a b show ?thesis by simp
qed

subsection \<open>The connection catalog\<close>

lemma atoi_digits:
  assumes "d_name \<noteq> []" and "\<forall>c\<in>set d_name. isdigit c"
    and "int (dec_val d_name) \<le> INT_MAX"
  shows "atoi d_name = Some (int (dec_val d_name))"
proof -
  from assms(1) obtain c cs where d: "d_name = c # cs" by (cases d_name) auto
  with assms(2) have c: "isdigit c" by simp
  have a: "dropWhile isspace d_name = d_name"
    using c d by (simp add: isdigit_not_isspace)
  have b: "skip_sign d_name = (False, d_name)"
    using d isdigit_not_sign [OF c] by simp
  have t: "takeWhile isdigit d_name = d_name"
    using assms(2) by (simp add: takeWhile_eq_all_conv)
  have m: "INT_MIN \<le> int (dec_val d_name)"
    by (simp add: INT_MIN_def)
  show ?thesis
    using assms(3) m by (simp add: atoi_def a b t)
qed

lemma foldl_dec_ge: "a \<le> foldl (\<lambda>acc c. 10 * acc + digit_val c) a cs"
proof (induction cs arbitrary: a)
  case Nil
  show ?case by simp
next
  case (Cons c cs)
  have "a \<le> 10 * a + digit_val c" by simp
  also have "\<dots> \<le> foldl (\<lambda>acc c. 10 * acc + digit_val c) (10 * a + digit_val c) cs"
    by (rule Cons.IH)
  finally show ?case by simp
qed

lemma digit_val_0: "isdigit c \<Longrightarrow> digit_val c = 0 \<Longrightarrow> c = CHR ''0''"
  by (auto simp: isdigit_def digit_val_def)

lemma dec_val_0_hd:
  assumes "isdigit c" and "dec_val (c # cs) = 0"
  shows "c = CHR ''0''"
proof -
  have "digit_val c \<le> dec_val (c # cs)"
    using foldl_dec_ge [of "digit_val c" cs] by (simp add: dec_val_def)
  with assms(2) have "digit_val c = 0" by simp
  with assms(1) show ?thesis by (rule digit_val_0)
qed

lemma atoi_no_digits:
  assumes "takeWhile isdigit (snd (skip_sign (dropWhile isspace d_name))) = []"
  shows "atoi d_name = Some 0"
proof -
  obtain neg r where sk: "skip_sign (dropWhile isspace d_name) = (neg, r)"
    by (cases "skip_sign (dropWhile isspace d_name)")
  with assms have "takeWhile isdigit r = []" by simp
  then show ?thesis
    by (simp add: atoi_def sk dec_val_def INT_MIN_def INT_MAX_def)
qed

lemma no_digits_not_0:
  assumes "takeWhile isdigit (snd (skip_sign (dropWhile isspace d_name))) = []"
  shows "case d_name of [] \<Rightarrow> True | c # cs \<Rightarrow> c \<noteq> CHR ''0''"
proof (cases d_name)
  case Nil
  then show ?thesis by simp
next
  case (Cons c cs)
  show ?thesis
  proof (cases "c = CHR ''0''")
    case True
    have "isdigit c" using True by (simp add: isdigit_def)
    then have "takeWhile isdigit (snd (skip_sign (dropWhile isspace d_name))) \<noteq> []"
      using Cons isdigit_not_sign [of c] by (simp add: isdigit_not_isspace)
    with assms show ?thesis by simp
  next
    case False
    then show ?thesis using Cons by simp
  qed
qed

lemma length_word_bytes: "length (word_bytes n v) = n"
  by (simp add: word_bytes_def)


lemma fread_member_full:
  "n \<le> length avail \<Longrightarrow> fread_member n avail old = (True, word_of_bytes (take n avail))"
  by (simp add: fread_member_def Let_def store_def length_word_bytes)


lemma fread_spec_full:
  "12 \<le> length content \<Longrightarrow>
   fread_spec content fresh =
     (True,
      \<lparr>dst_port = word_of_bytes (take 2 content),
       dst_addr = word_of_bytes (take 4 (drop 2 content)),
       src_port = word_of_bytes (take 2 (drop 6 content)),
       src_addr = word_of_bytes (take 4 (drop 8 content))\<rparr>, 4)"
  by (simp add: fread_spec_def Let_def fread_member_full)


lemma read_entry_accept:
  assumes "atoi d_name = Some cid"
    and "cid \<noteq> 0 \<or> (\<exists>cs. d_name = CHR ''0'' # cs)"
    and "w_files w (root @ d_name @ ''/spec'') = Some content"
    and "12 \<le> length content"
  shows "read_entry root agent d_name (Some fresh # ms, head, w) =
     Return (Next (ms,
       \<lparr>conn_agent = agent, conn_cid = cid,
        conn_spec =
          \<lparr>dst_port = word_of_bytes (take 2 content),
           dst_addr = word_of_bytes (take 4 (drop 2 content)),
           src_port = word_of_bytes (take 2 (drop 6 content)),
           src_addr = word_of_bytes (take 4 (drop 8 content))\<rparr>\<rparr> # head,
       io (Io_fclose (root @ d_name @ ''/spec''))
         (log_freads (root @ d_name @ ''/spec'') 4
            (io (Io_fopen (root @ d_name @ ''/spec'') ''r'') w))))"
proof -
  from assms(2) have acc: "\<not> (cid = 0 \<and> (case d_name of [] \<Rightarrow> True | c # cs \<Rightarrow> c \<noteq> CHR ''0''))"
    by auto
  have f: "w_files (io (Io_fopen (root @ d_name @ ''/spec'') ''r'') w) (root @ d_name @ ''/spec'')
      = Some content"
    using assms(3) by (simp add: io_def)
  show ?thesis
    unfolding read_entry_def
    by (simp only: prod.case assms(1) option.case acc if_False list.case Let_def f
        fread_spec_full [OF assms(4)]) simp
qed

lemma read_entry_skip:
  assumes "takeWhile isdigit (snd (skip_sign (dropWhile isspace d_name))) = []"
  shows "read_entry root agent d_name st = Return (Next st)"
  using atoi_no_digits [OF assms] no_digits_not_0 [OF assms]
  by (cases st) (simp add: read_entry_def)

lemmas atoi_eval =
  atoi_def isspace_def isdigit_def dec_val_def digit_val_def INT_MAX_def INT_MIN_def



text \<open>
  One pass of the loop of \<^verbatim>\<open>refresh_connections\<close>, for the directory entry \<open>d_name\<close>.
  (1) When the name is a decimal numeral (digits only, at least one, with a value that fits
  an \<^verbatim>\<open>int\<close>; the name \<^verbatim>\<open>0\<close> is one) and its spec file holds the twelve bytes, a
  connection with the value of the numeral as id and with the four members of the spec,
  read in the order of the file, is linked at the head and the loop goes on. (2) When the
  name does not begin with an integer the entry is skipped: the loop goes on with the
  list, the files and the log of calls as they were. (3) An entry is read, under the
  integer that \<^verbatim>\<open>atoi\<close> finds at the start of its name, when the integer is not zero or
  the name begins with the character \<^verbatim>\<open>0\<close>; (4) it is skipped when the integer is zero
  and the name does not begin with the character \<^verbatim>\<open>0\<close>.
\<close>

lemma read_entry_by_name:
  "(d_name \<noteq> [] \<and> (\<forall>c\<in>set d_name. isdigit c) \<and> int (dec_val d_name) \<le> INT_MAX \<and>
    w_files w (root @ d_name @ ''/spec'') = Some content \<and> 12 \<le> length content \<longrightarrow>
      read_entry root agent d_name (Some fresh # ms, head, w) =
        Return (Next (ms,
          \<lparr>conn_agent = agent, conn_cid = int (dec_val d_name),
           conn_spec =
             \<lparr>dst_port = word_of_bytes (take 2 content),
              dst_addr = word_of_bytes (take 4 (drop 2 content)),
              src_port = word_of_bytes (take 2 (drop 6 content)),
              src_addr = word_of_bytes (take 4 (drop 8 content))\<rparr>\<rparr> # head,
          io (Io_fclose (root @ d_name @ ''/spec''))
            (log_freads (root @ d_name @ ''/spec'') 4
               (io (Io_fopen (root @ d_name @ ''/spec'') ''r'') w)))))
   \<and> (takeWhile isdigit (snd (skip_sign (dropWhile isspace d_name))) = [] \<longrightarrow>
        read_entry root agent d_name st = Return (Next st))
   \<and> (atoi d_name = Some cid \<and> (cid \<noteq> 0 \<or> (\<exists>cs. d_name = CHR ''0'' # cs)) \<and>
       w_files w (root @ d_name @ ''/spec'') = Some content \<and> 12 \<le> length content \<longrightarrow>
        read_entry root agent d_name (Some fresh # ms, head, w) =
          Return (Next (ms,
            \<lparr>conn_agent = agent, conn_cid = cid,
             conn_spec =
               \<lparr>dst_port = word_of_bytes (take 2 content),
                dst_addr = word_of_bytes (take 4 (drop 2 content)),
                src_port = word_of_bytes (take 2 (drop 6 content)),
                src_addr = word_of_bytes (take 4 (drop 8 content))\<rparr>\<rparr> # head,
            io (Io_fclose (root @ d_name @ ''/spec''))
              (log_freads (root @ d_name @ ''/spec'') 4
                 (io (Io_fopen (root @ d_name @ ''/spec'') ''r'') w)))))
   \<and> (atoi d_name = Some 0 \<and> (case d_name of [] \<Rightarrow> True | c # cs \<Rightarrow> c \<noteq> CHR ''0'') \<longrightarrow>
        read_entry root agent d_name st = Return (Next st))"
proof (intro conjI impI)
  assume h: "d_name \<noteq> [] \<and> (\<forall>c\<in>set d_name. isdigit c) \<and> int (dec_val d_name) \<le> INT_MAX \<and>
    w_files w (root @ d_name @ ''/spec'') = Some content \<and> 12 \<le> length content"
  then have a: "atoi d_name = Some (int (dec_val d_name))"
    by (simp add: atoi_digits)
  from h obtain c cs where d: "d_name = c # cs" by (cases d_name) auto
  with h have c: "isdigit c" by simp
  have acc: "int (dec_val d_name) \<noteq> 0 \<or> (\<exists>cs. d_name = CHR ''0'' # cs)"
    using dec_val_0_hd [OF c, of cs] d by auto
  from h have f: "w_files w (root @ d_name @ ''/spec'') = Some content"
    and l: "12 \<le> length content" by simp_all
  show "read_entry root agent d_name (Some fresh # ms, head, w) =
        Return (Next (ms,
          \<lparr>conn_agent = agent, conn_cid = int (dec_val d_name),
           conn_spec =
             \<lparr>dst_port = word_of_bytes (take 2 content),
              dst_addr = word_of_bytes (take 4 (drop 2 content)),
              src_port = word_of_bytes (take 2 (drop 6 content)),
              src_addr = word_of_bytes (take 4 (drop 8 content))\<rparr>\<rparr> # head,
          io (Io_fclose (root @ d_name @ ''/spec''))
            (log_freads (root @ d_name @ ''/spec'') 4
               (io (Io_fopen (root @ d_name @ ''/spec'') ''r'') w))))"
    by (rule read_entry_accept [OF a acc f l])
next
  assume "takeWhile isdigit (snd (skip_sign (dropWhile isspace d_name))) = []"
  then show "read_entry root agent d_name st = Return (Next st)"
    by (rule read_entry_skip)
next
  assume h: "atoi d_name = Some cid \<and> (cid \<noteq> 0 \<or> (\<exists>cs. d_name = CHR ''0'' # cs)) \<and>
       w_files w (root @ d_name @ ''/spec'') = Some content \<and> 12 \<le> length content"
  then have a: "atoi d_name = Some cid"
    and acc: "cid \<noteq> 0 \<or> (\<exists>cs. d_name = CHR ''0'' # cs)"
    and f: "w_files w (root @ d_name @ ''/spec'') = Some content"
    and l: "12 \<le> length content" by simp_all
  show "read_entry root agent d_name (Some fresh # ms, head, w) =
          Return (Next (ms,
            \<lparr>conn_agent = agent, conn_cid = cid,
             conn_spec =
               \<lparr>dst_port = word_of_bytes (take 2 content),
                dst_addr = word_of_bytes (take 4 (drop 2 content)),
                src_port = word_of_bytes (take 2 (drop 6 content)),
                src_addr = word_of_bytes (take 4 (drop 8 content))\<rparr>\<rparr> # head,
            io (Io_fclose (root @ d_name @ ''/spec''))
              (log_freads (root @ d_name @ ''/spec'') 4
                 (io (Io_fopen (root @ d_name @ ''/spec'') ''r'') w))))"
    by (rule read_entry_accept [OF a acc f l])
next
  assume "atoi d_name = Some 0 \<and> (case d_name of [] \<Rightarrow> True | c # cs \<Rightarrow> c \<noteq> CHR ''0'')"
  then show "read_entry root agent d_name st = Return (Next st)"
    by (cases st) (simp add: read_entry_def)
qed

lemma read_entry_by_name_example:
  "read_entry ''/proc/web100/'' \<lparr>agent_addr = 1, agent_type = WEB100_AGENT_TYPE_LOCAL\<rparr>
     ''12''
     ([Some zero_spec], [],
      \<lparr>w_files = [''/proc/web100/12/spec'' \<mapsto> [0, 80, 10, 0, 0, 1, 15, 160, 10, 0, 0, 2]],
       w_dirs = Map.empty, w_wfail = {}, w_log = [], web100_errno = 0\<rparr>)
   = Return (Next ([],
       [\<lparr>conn_agent = \<lparr>agent_addr = 1, agent_type = WEB100_AGENT_TYPE_LOCAL\<rparr>,
         conn_cid = 12,
         conn_spec = \<lparr>dst_port = 0x5000, dst_addr = 0x0100000A, src_port = 0xA00F,
                       src_addr = 0x0200000A\<rparr>\<rparr>],
       \<lparr>w_files = [''/proc/web100/12/spec'' \<mapsto> [0, 80, 10, 0, 0, 1, 15, 160, 10, 0, 0, 2]],
        w_dirs = Map.empty, w_wfail = {},
        w_log = [Io_fclose ''/proc/web100/12/spec'',
                 Io_fread ''/proc/web100/12/spec'' 4, Io_fread ''/proc/web100/12/spec'' 2,
                 Io_fread ''/proc/web100/12/spec'' 4, Io_fread ''/proc/web100/12/spec'' 2,
                 Io_fopen ''/proc/web100/12/spec'' ''r''],
        web100_errno = 0\<rparr>))
   \<and> read_entry ''/proc/web100/'' \<lparr>agent_addr = 1, agent_type = WEB100_AGENT_TYPE_LOCAL\<rparr>
     ''header''
     ([Some zero_spec], [],
      \<lparr>w_files = Map.empty, w_dirs = Map.empty, w_wfail = {}, w_log = [],
       web100_errno = 0\<rparr>)
   = Return (Next ([Some zero_spec], [],
      \<lparr>w_files = Map.empty, w_dirs = Map.empty, w_wfail = {}, w_log = [],
       web100_errno = 0\<rparr>))
   \<and> read_entry ''/proc/web100/'' \<lparr>agent_addr = 1, agent_type = WEB100_AGENT_TYPE_LOCAL\<rparr>
     ''0x''
     ([Some zero_spec], [],
      \<lparr>w_files = [''/proc/web100/0x/spec'' \<mapsto> [0, 80, 10, 0, 0, 1, 15, 160, 10, 0, 0, 2]],
       w_dirs = Map.empty, w_wfail = {}, w_log = [], web100_errno = 0\<rparr>)
   = Return (Next ([],
       [\<lparr>conn_agent = \<lparr>agent_addr = 1, agent_type = WEB100_AGENT_TYPE_LOCAL\<rparr>,
         conn_cid = 0,
         conn_spec = \<lparr>dst_port = 0x5000, dst_addr = 0x0100000A, src_port = 0xA00F,
                       src_addr = 0x0200000A\<rparr>\<rparr>],
       \<lparr>w_files = [''/proc/web100/0x/spec'' \<mapsto> [0, 80, 10, 0, 0, 1, 15, 160, 10, 0, 0, 2]],
        w_dirs = Map.empty, w_wfail = {},
        w_log = [Io_fclose ''/proc/web100/0x/spec'',
                 Io_fread ''/proc/web100/0x/spec'' 4, Io_fread ''/proc/web100/0x/spec'' 2,
                 Io_fread ''/proc/web100/0x/spec'' 4, Io_fread ''/proc/web100/0x/spec'' 2,
                 Io_fopen ''/proc/web100/0x/spec'' ''r''],
        web100_errno = 0\<rparr>))
   \<and> read_entry ''/proc/web100/'' \<lparr>agent_addr = 1, agent_type = WEB100_AGENT_TYPE_LOCAL\<rparr>
     ''+0''
     ([Some zero_spec], [],
      \<lparr>w_files = Map.empty, w_dirs = Map.empty, w_wfail = {}, w_log = [],
       web100_errno = 0\<rparr>)
   = Return (Next ([Some zero_spec], [],
      \<lparr>w_files = Map.empty, w_dirs = Map.empty, w_wfail = {}, w_log = [],
       web100_errno = 0\<rparr>))"
  using read_entry_by_name
    [where d_name = "''12''" and root = "''/proc/web100/''"
      and agent = "\<lparr>agent_addr = 1, agent_type = WEB100_AGENT_TYPE_LOCAL\<rparr>"
      and content = "[0, 80, 10, 0, 0, 1, 15, 160, 10, 0, 0, 2]"
      and fresh = zero_spec and ms = "[]" and head = "[]"
      and w = "\<lparr>w_files = [''/proc/web100/12/spec'' \<mapsto> [0, 80, 10, 0, 0, 1, 15, 160, 10, 0, 0, 2]],
         w_dirs = Map.empty, w_wfail = {}, w_log = [], web100_errno = 0\<rparr>"]
    read_entry_by_name
    [where d_name = "''header''" and root = "''/proc/web100/''"
      and agent = "\<lparr>agent_addr = 1, agent_type = WEB100_AGENT_TYPE_LOCAL\<rparr>"
      and st = "([Some zero_spec], [],
        \<lparr>w_files = Map.empty, w_dirs = Map.empty, w_wfail = {}, w_log = [],
         web100_errno = 0\<rparr>)"]
    read_entry_by_name
    [where d_name = "''0x''" and root = "''/proc/web100/''" and cid = 0
      and agent = "\<lparr>agent_addr = 1, agent_type = WEB100_AGENT_TYPE_LOCAL\<rparr>"
      and content = "[0, 80, 10, 0, 0, 1, 15, 160, 10, 0, 0, 2]"
      and fresh = zero_spec and ms = "[]" and head = "[]"
      and w = "\<lparr>w_files = [''/proc/web100/0x/spec'' \<mapsto> [0, 80, 10, 0, 0, 1, 15, 160, 10, 0, 0, 2]],
         w_dirs = Map.empty, w_wfail = {}, w_log = [], web100_errno = 0\<rparr>"]
    read_entry_by_name
    [where d_name = "''+0''" and root = "''/proc/web100/''"
      and agent = "\<lparr>agent_addr = 1, agent_type = WEB100_AGENT_TYPE_LOCAL\<rparr>"
      and st = "([Some zero_spec], [],
        \<lparr>w_files = Map.empty, w_dirs = Map.empty, w_wfail = {}, w_log = [],
         web100_errno = 0\<rparr>)"]
  by (simp add: atoi_eval log_freads_def io_def word_of_bytes_def)























subsection \<open>Parsing the header\<close>

lemma name_ok_hd: "name_ok cap name \<Longrightarrow> \<exists>c cs. name = c # cs \<and> \<not> isspace c"
  by (cases name) (auto simp: name_ok_def)

lemma dropWhile_name: "name_ok cap name \<Longrightarrow> dropWhile isspace (name @ X) = name @ X"
  using name_ok_hd [of cap name] by auto

lemma scan_s_token:
  assumes "name_ok cap tok" and "isspace c"
  shows "scan_s cap (tok @ c # rest) = Return (Some (tok, c # rest))"
proof -
  from assms(1) have ne: "tok \<noteq> []" and all: "list_all (\<lambda>c. \<not> isspace c) tok"
    and lt: "length tok < cap"
    by (auto simp: name_ok_def list_all_iff)
  have t: "takeWhile (\<lambda>c. \<not> isspace c) (tok @ c # rest) = tok"
    using all assms(2) by (simp add: takeWhile_token)
  have d: "dropWhile (\<lambda>c. \<not> isspace c) (tok @ c # rest) = c # rest"
    using all assms(2) by (simp add: dropWhile_token)
  have "(case tok of [] \<Rightarrow> Return None
          | a # l \<Rightarrow> if cap \<le> length (a # l) then Undefined
                     else Return (Some (a # l, c # rest))) = Return (Some (tok, c # rest))"
    using ne lt by (cases tok) auto
  then show ?thesis
    unfolding scan_s_def Let_def dropWhile_name [OF assms(1)] t d .
qed

lemma scan_d_numeral:
  assumes "numeral_ok ds" and "\<not> isdigit c"
  shows "scan_d (CHR '' '' # ds @ c # rest) = Some (int (dec_val ds), c # rest)"
proof -
  from assms(1) obtain x xs where ds: "ds = x # xs" and x: "isdigit x"
    and all: "list_all isdigit ds"
    by (cases ds) (auto simp: numeral_ok_def)
  have a: "dropWhile isspace (CHR '' '' # ds @ c # rest) = ds @ c # rest"
    using ds x by (simp add: isspace_sp isdigit_not_isspace)
  have b: "skip_sign (ds @ c # rest) = (False, ds @ c # rest)"
    using ds isdigit_not_sign [OF x] by simp
  have t: "takeWhile isdigit (ds @ c # rest) = ds"
    using all assms(2) by (rule takeWhile_token)
  have d: "dropWhile isdigit (ds @ c # rest) = c # rest"
    using all assms(2) by (rule dropWhile_token)
  have "(case ds of [] \<Rightarrow> None
          | a # l \<Rightarrow> Some (if False then - int (dec_val (a # l)) else int (dec_val (a # l)),
                            c # rest)) = Some (int (dec_val ds), c # rest)"
    using ds by simp
  then show ?thesis
    unfolding scan_d_def a b prod.case t d .
qed

lemma scan_var_text:
  assumes "var_ok tyof sz (name, off, ty)"
  shows "scan_var (var_name_size sz) (var_text (name, off, ty) @ rest) =
     Return (Some (name, int (dec_val off), int (dec_val ty), CHR 0x0A # rest))"
proof -
  from assms have n: "name_ok (var_name_size sz) name" and o: "numeral_ok off"
    and t: "numeral_ok ty"
    by (simp_all add: var_ok_def)
  have vt: "var_text (name, off, ty) @ rest =
      name @ CHR '' '' # (off @ CHR '' '' # (ty @ CHR 0x0A # rest))"
    by (simp add: var_text_def)
  have s1: "scan_s (var_name_size sz)
        (name @ CHR '' '' # (off @ CHR '' '' # (ty @ CHR 0x0A # rest))) =
      Return (Some (name, CHR '' '' # (off @ CHR '' '' # (ty @ CHR 0x0A # rest))))"
    using n isspace_sp by (rule scan_s_token)
  have s2: "scan_d (CHR '' '' # (off @ CHR '' '' # (ty @ CHR 0x0A # rest))) =
      Some (int (dec_val off), CHR '' '' # (ty @ CHR 0x0A # rest))"
    using o not_isdigit_space by (rule scan_d_numeral)
  have s3: "scan_d (CHR '' '' # (ty @ CHR 0x0A # rest)) =
      Some (int (dec_val ty), CHR 0x0A # rest)"
    using t not_isdigit_nl by (rule scan_d_numeral)
  from o t have r: "int (dec_val off) \<le> INT_MAX" "int (dec_val ty) \<le> INT_MAX"
    by (simp_all add: numeral_ok_def)
  have m: "INT_MIN \<le> int (dec_val off)" "INT_MIN \<le> int (dec_val ty)"
    by (simp_all add: INT_MIN_def)
  show ?thesis
    unfolding vt scan_var_def using r m by (simp add: s1 s2 s3)
qed

lemma header_step_skip_nl:
  "header_step agent tyof sz s (CHR 0x0A # X) = header_step agent tyof sz s X"
  by (simp add: header_step_def isspace_nl)

lemma header_loop_skip_nl:
  "header_loop agent tyof sz s (CHR 0x0A # X) = header_loop agent tyof sz s X"
  by (simp only: header_loop.simps [of agent tyof sz s "CHR 0x0A # X"]
      header_loop.simps [of agent tyof sz s X] header_step_skip_nl)

lemma header_loop_end:
  "header_loop agent tyof sz s [] = Return (WEB100_ERR_SUCCESS, s)"
  by (simp add: header_step_def)

lemma header_step_var:
  assumes "var_ok tyof sz v" and "hs_gp s = Some gp" and "hs_mallocs s = Some a # ms"
  shows "header_step agent tyof sz s (var_text v @ rest) =
     Return (Next
       (s\<lparr>hs_gp := Some (link_var gp (parsed_var tyof (group_hdr gp) v)
                           (nat (var_size tyof v))),
          hs_mallocs := ms\<rparr>,
        CHR 0x0A # rest))"
proof -
  obtain name off ty where v: "v = (name, off, ty)" by (cases v)
  from assms(1) v have n: "name_ok (var_name_size sz) name" and h: "hd name \<noteq> CHR ''/''"
    and z: "size_from_type (tyof (int (dec_val ty))) \<noteq> None"
    by (simp_all add: var_ok_def)
  from z obtain k where k: "size_from_type (tyof (int (dec_val ty))) = Some k" by auto
  from name_ok_hd [OF n] obtain c cs where nc: "name = c # cs" and c: "\<not> isspace c"
    by blast
  let ?inp = "var_text v @ rest"
  have inp: "?inp = c # cs @ CHR '' '' # off @ CHR '' '' # ty @ CHR 0x0A # rest"
    by (simp add: v var_text_def nc)
  have d: "dropWhile isspace ?inp = c # cs @ CHR '' '' # off @ CHR '' '' # ty @ CHR 0x0A # rest"
    unfolding inp using c by simp
  have sl: "c \<noteq> CHR ''/''" using h nc by simp
  have sv: "scan_var (var_name_size sz) (c # cs @ CHR '' '' # off @ CHR '' '' # ty @ CHR 0x0A # rest) =
      Return (Some (name, int (dec_val off), int (dec_val ty), CHR 0x0A # rest))"
    using scan_var_text [OF assms(1) [unfolded v], of rest] by (simp add: var_text_def nc)
  show ?thesis
    unfolding header_step_def d
    by (simp add: sl assms(2) assms(3) sv k v parsed_var_def var_size_def)
qed

lemma header_loop_var:
  assumes "var_ok tyof sz v" and "hs_gp s = Some gp" and "hs_mallocs s = Some a # ms"
  shows "header_loop agent tyof sz s (var_text v @ rest) =
     header_loop agent tyof sz
       (s\<lparr>hs_gp := Some (link_var gp (parsed_var tyof (group_hdr gp) v)
                           (nat (var_size tyof v))),
          hs_mallocs := ms\<rparr>) rest"
  by (subst header_loop.simps)
     (simp add: header_step_var [OF assms] header_loop_skip_nl del: header_loop.simps)

lemma link_var_hdr: "group_hdr (link_var gp vp n) = group_hdr gp"
  by (simp add: link_var_def)

lemma header_loop_vars:
  assumes "\<forall>v\<in>set vars. var_ok tyof sz v" and "hs_gp s = Some gp"
    and "hs_mallocs s = map Some as @ ms" and "length as = length vars"
  shows "header_loop agent tyof sz s (concat (map var_text vars) @ rest) =
     header_loop agent tyof sz
       (s\<lparr>hs_gp := Some
             (foldl (\<lambda>g v. link_var g (parsed_var tyof (group_hdr g) v)
                              (nat (var_size tyof v))) gp vars),
          hs_mallocs := ms\<rparr>) rest"
  using assms
proof (induction vars arbitrary: s gp as)
  case Nil
  then have "s\<lparr>hs_gp := Some gp, hs_mallocs := ms\<rparr> = s" by simp
  then show ?case by simp
next
  case (Cons v vars)
  from Cons.prems(4) obtain a as' where as: "as = a # as'" and l: "length as' = length vars"
    by (cases as) auto
  let ?gp = "link_var gp (parsed_var tyof (group_hdr gp) v) (nat (var_size tyof v))"
  let ?s = "s\<lparr>hs_gp := Some ?gp, hs_mallocs := map Some as' @ ms\<rparr>"
  have m: "hs_mallocs s = Some a # (map Some as' @ ms)"
    using Cons.prems(3) as by simp
  have v: "var_ok tyof sz v" using Cons.prems(1) by simp
  have "header_loop agent tyof sz s (concat (map var_text (v # vars)) @ rest) =
      header_loop agent tyof sz ?s (concat (map var_text vars) @ rest)"
    using header_loop_var [OF v Cons.prems(2) m, of agent "concat (map var_text vars) @ rest"]
    by simp
  also have "\<dots> = header_loop agent tyof sz
       (?s\<lparr>hs_gp := Some
             (foldl (\<lambda>g v. link_var g (parsed_var tyof (group_hdr g) v)
                              (nat (var_size tyof v))) ?gp vars),
          hs_mallocs := ms\<rparr>) rest"
    using Cons.prems(1) l by (intro Cons.IH [where as = as']) simp_all
  finally show ?case by simp
qed

lemma var_size_nonneg: "0 \<le> var_size tyof v"
  by (simp add: var_size_def split: prod.splits option.splits)

lemma foldl_link_var:
  "foldl (\<lambda>g v. link_var g (parsed_var tyof (group_hdr g) v) (nat (var_size tyof v))) gp vars =
     gp\<lparr>group_size := group_size gp + sum_list (map (var_size tyof) vars),
        group_nvars := group_nvars gp + int (length vars),
        var_head := rev (map (parsed_var tyof (group_hdr gp)) vars) @ var_head gp\<rparr>"
proof (induction vars arbitrary: gp)
  case Nil
  show ?case by simp
next
  case (Cons v vars)
  show ?case
    by (simp add: Cons.IH link_var_hdr) (simp add: link_var_def var_size_nonneg)
qed

lemma header_loop_group:
  assumes "name_ok (group_name_size sz) name" and "\<forall>v\<in>set vars. var_ok tyof sz v"
    and "hs_mallocs s = Some a # map Some as @ ms" and "length as = length vars"
  shows "header_loop agent tyof sz s (group_text name vars @ rest) =
     header_loop agent tyof sz
       \<lparr>hs_gp = Some (parsed_group tyof
           \<lparr>group_addr = a, group_name = name, group_agent = agent\<rparr> vars),
        hs_discard = (strcmp name ''spec'' = 0),
        hs_linked = group_list s,
        hs_mallocs = ms\<rparr> rest"
proof -
  let ?hdr = "\<lparr>group_addr = a, group_name = name, group_agent = agent\<rparr>"
  let ?g0 = "\<lparr>group_hdr = ?hdr, group_size = 0, group_nvars = 0, var_head = []\<rparr>"
  let ?s1 = "\<lparr>hs_gp = Some ?g0, hs_discard = (strcmp name ''spec'' = 0),
              hs_linked = group_list s, hs_mallocs = map Some as @ ms\<rparr>"
  let ?X = "concat (map var_text vars) @ rest"
  have gt: "group_text name vars @ rest = CHR ''/'' # (name @ CHR 0x0A # ?X)"
    by (simp add: group_text_def)
  have sc: "scan_s (group_name_size sz) (name @ CHR 0x0A # ?X) =
      Return (Some (name, CHR 0x0A # ?X))"
    using assms(1) isspace_nl by (rule scan_s_token)
  have ns: "\<not> isspace CHR ''/''" by (simp add: isspace_def)
  have step: "header_step agent tyof sz s (group_text name vars @ rest) =
      Return (Next (?s1, CHR 0x0A # ?X))"
    unfolding gt header_step_def using ns by (simp add: assms(3) sc)
  have "header_loop agent tyof sz s (group_text name vars @ rest) = header_loop agent tyof sz ?s1 ?X"
    by (subst header_loop.simps) (simp add: step header_loop_skip_nl del: header_loop.simps)
  also have "\<dots> = header_loop agent tyof sz
      (?s1\<lparr>hs_gp := Some
             (foldl (\<lambda>g v. link_var g (parsed_var tyof (group_hdr g) v)
                              (nat (var_size tyof v))) ?g0 vars),
          hs_mallocs := ms\<rparr>) rest"
    using assms(2) assms(4) by (intro header_loop_vars [where as = as]) simp_all
  finally show ?thesis
    by (simp add: foldl_link_var parsed_group_def)
qed

lemma all_some_split:
  assumes "list_all (\<lambda>m. m \<noteq> None) ms" and "Suc k \<le> length ms"
  shows "\<exists>a as rest. ms = Some a # map Some as @ rest \<and> length as = k \<and>
           list_all (\<lambda>m. m \<noteq> None) rest \<and> length rest = length ms - Suc k"
proof -
  from assms(2) obtain m ms' where ms: "ms = m # ms'" by (cases ms) auto
  with assms(1) obtain a where m: "m = Some a" by auto
  from assms ms have all: "list_all (\<lambda>m. m \<noteq> None) ms'" and k: "k \<le> length ms'"
    by simp_all
  have "\<And>x. x \<in> set (take k ms') \<Longrightarrow> Some (the x) = x"
    using all by (auto simp: list_all_iff dest!: in_set_takeD)
  then have "map Some (map the (take k ms')) = take k ms'"
    by (simp add: map_idI)
  then have "ms' = map Some (map the (take k ms')) @ drop k ms'" by simp
  moreover have "length (map the (take k ms')) = k" using k by simp
  moreover have "list_all (\<lambda>m. m \<noteq> None) (drop k ms')"
    using all by (auto simp: list_all_iff dest: in_set_dropD)
  moreover have "length (drop k ms') = length ms - Suc k" using ms by simp
  ultimately show ?thesis using ms m by blast
qed

lemma scan_line_version:
  assumes "version \<noteq> []" and "CHR 0x0A \<notin> set version" and "length version < cap"
  shows "scan_line cap (version @ CHR 0x0A # X) = Return (Some (version, CHR 0x0A # X))"
proof -
  from assms(2) have all: "list_all (\<lambda>c. c \<noteq> CHR 0x0A) version"
    by (auto simp: list_all_iff)
  have t: "takeWhile (\<lambda>c. c \<noteq> CHR 0x0A) (version @ CHR 0x0A # X) = version"
    using all by (rule takeWhile_token) simp
  have d: "dropWhile (\<lambda>c. c \<noteq> CHR 0x0A) (version @ CHR 0x0A # X) = CHR 0x0A # X"
    using all by (rule dropWhile_token) simp
  have "(case version of [] \<Rightarrow> Return None
          | a # l \<Rightarrow> if cap \<le> length (a # l) then Undefined
                     else Return (Some (a # l, CHR 0x0A # X))) =
      Return (Some (version, CHR 0x0A # X))"
    using assms(1) assms(3) by (cases version) auto
  then show ?thesis unfolding scan_line_def t d .
qed

lemma header_loop_two_groups:
  assumes "name_ok (group_name_size sz) n1" and "name_ok (group_name_size sz) n2"
    and "\<forall>v\<in>set vs1. var_ok tyof sz v" and "\<forall>v\<in>set vs2. var_ok tyof sz v"
    and "length as1 = length vs1" and "length as2 = length vs2"
  shows "header_loop agent tyof sz
       \<lparr>hs_gp = None, hs_discard = False, hs_linked = g0,
        hs_mallocs = Some a1 # map Some as1 @ Some a2 # map Some as2 @ ms\<rparr>
       (CHR 0x0A # group_text n1 vs1 @ group_text n2 vs2) =
     Return (WEB100_ERR_SUCCESS,
       \<lparr>hs_gp = Some (parsed_group tyof
           \<lparr>group_addr = a2, group_name = n2, group_agent = agent\<rparr> vs2),
        hs_discard = (strcmp n2 ''spec'' = 0),
        hs_linked =
          (if strcmp n1 ''spec'' = 0 then g0
           else parsed_group tyof
                  \<lparr>group_addr = a1, group_name = n1, group_agent = agent\<rparr> vs1 # g0),
        hs_mallocs = ms\<rparr>)"
proof -
  let ?s0 = "\<lparr>hs_gp = None, hs_discard = False, hs_linked = g0,
        hs_mallocs = Some a1 # map Some as1 @ Some a2 # map Some as2 @ ms\<rparr>"
  let ?G1 = "parsed_group tyof \<lparr>group_addr = a1, group_name = n1, group_agent = agent\<rparr> vs1"
  let ?s1 = "\<lparr>hs_gp = Some ?G1, hs_discard = (strcmp n1 ''spec'' = 0),
        hs_linked = group_list ?s0, hs_mallocs = Some a2 # map Some as2 @ ms\<rparr>"
  let ?G2 = "parsed_group tyof \<lparr>group_addr = a2, group_name = n2, group_agent = agent\<rparr> vs2"
  let ?s2 = "\<lparr>hs_gp = Some ?G2, hs_discard = (strcmp n2 ''spec'' = 0),
        hs_linked = group_list ?s1, hs_mallocs = ms\<rparr>"
  have "header_loop agent tyof sz ?s0 (CHR 0x0A # group_text n1 vs1 @ group_text n2 vs2) =
      header_loop agent tyof sz ?s0 (group_text n1 vs1 @ group_text n2 vs2)"
    by (rule header_loop_skip_nl)
  also have "\<dots> = header_loop agent tyof sz ?s1 (group_text n2 vs2)"
    using assms(1) assms(3) _ assms(5)
    by (rule header_loop_group [where as = as1 and ms = "Some a2 # map Some as2 @ ms"]) simp
  also have "\<dots> = header_loop agent tyof sz ?s1 (group_text n2 vs2 @ [])"
    by simp
  also have "\<dots> = header_loop agent tyof sz ?s2 []"
    using assms(2) assms(4) _ assms(6)
    by (rule header_loop_group [where as = as2 and ms = ms]) simp
  also have "\<dots> = Return (WEB100_ERR_SUCCESS, ?s2)"
    by (rule header_loop_end)
  finally show ?thesis
    by (simp add: group_list_def)
qed

lemma strcmp_names:
  assumes "name_ok cap a" and "name_ok cap b"
  shows "strcmp a b = 0 \<longleftrightarrow> a = b"
proof -
  from assms have "CHR 0x00 \<notin> set a" and "CHR 0x00 \<notin> set b"
    by (auto simp: name_ok_def list_all_iff)
  then show ?thesis
    by (simp add: strcmp_eq_0_iff c_str_id)
qed

lemma name_ok_spec: "4 < cap \<Longrightarrow> name_ok cap ''spec''"
  by (simp add: name_ok_def isspace_def)

lemma attach_two:
  assumes "version \<noteq> []" and "CHR 0x0A \<notin> set version"
    and "name_ok (group_name_size sz) n1" and "name_ok (group_name_size sz) n2"
    and "\<forall>v\<in>set vs1. var_ok tyof sz v" and "\<forall>v\<in>set vs2. var_ok tyof sz v"
    and "list_all (\<lambda>m. m \<noteq> None) mallocs"
    and "3 + length vs1 + length vs2 \<le> length mallocs"
    and "length version < version_size sz"
  shows "\<exists>a0 a1 a2.
     web100_agent_attach_local
       (Some (version @ [CHR 0x0A] @ group_text n1 vs1 @ group_text n2 vs2))
       tyof sz fresh mallocs =
     Return (WEB100_ERR_SUCCESS,
       Some (fresh\<lparr>agent_hdr := \<lparr>agent_addr = a0, agent_type = WEB100_AGENT_TYPE_LOCAL\<rparr>,
                   agent_version := version,
                   group_head :=
                     (if strcmp n2 ''spec'' = 0 then []
                      else [parsed_group tyof
                              \<lparr>group_addr = a2, group_name = n2,
                               group_agent = \<lparr>agent_addr = a0,
                                               agent_type = WEB100_AGENT_TYPE_LOCAL\<rparr>\<rparr> vs2])
                     @ (if strcmp n1 ''spec'' = 0 then []
                        else [parsed_group tyof
                                \<lparr>group_addr = a1, group_name = n1,
                                 group_agent = \<lparr>agent_addr = a0,
                                                 agent_type = WEB100_AGENT_TYPE_LOCAL\<rparr>\<rparr> vs1])
                     @ group_head fresh\<rparr>))"
proof -
  from assms(8) have "Suc 0 \<le> length mallocs" by simp
  from all_some_split [OF assms(7) this] obtain a0 ms0
    where m0: "mallocs = Some a0 # ms0" and all0: "list_all (\<lambda>m. m \<noteq> None) ms0"
      and l0: "length ms0 = length mallocs - 1"
    by auto
  from assms(8) l0 have "Suc (length vs1) \<le> length ms0" by simp
  from all_some_split [OF all0 this] obtain a1 as1 ms1
    where m1: "ms0 = Some a1 # map Some as1 @ ms1" and k1: "length as1 = length vs1"
      and all1: "list_all (\<lambda>m. m \<noteq> None) ms1"
      and l1: "length ms1 = length ms0 - Suc (length vs1)"
    by auto
  from assms(8) l0 l1 have "Suc (length vs2) \<le> length ms1" by simp
  from all_some_split [OF all1 this] obtain a2 as2 ms2
    where m2: "ms1 = Some a2 # map Some as2 @ ms2" and k2: "length as2 = length vs2"
    by auto
  let ?ag = "\<lparr>agent_addr = a0, agent_type = WEB100_AGENT_TYPE_LOCAL\<rparr>"
  let ?X = "group_text n1 vs1 @ group_text n2 vs2"
  have sl: "scan_line (version_size sz) (version @ [CHR 0x0A] @ ?X) =
      Return (Some (version, CHR 0x0A # ?X))"
    using scan_line_version [OF assms(1) assms(2) assms(9), of ?X] by simp
  have loop: "header_loop ?ag tyof sz
       \<lparr>hs_gp = None, hs_discard = False, hs_linked = group_head fresh,
        hs_mallocs = Some a1 # map Some as1 @ Some a2 # map Some as2 @ ms2\<rparr>
       (CHR 0x0A # ?X) =
     Return (WEB100_ERR_SUCCESS,
       \<lparr>hs_gp = Some (parsed_group tyof
           \<lparr>group_addr = a2, group_name = n2, group_agent = ?ag\<rparr> vs2),
        hs_discard = (strcmp n2 ''spec'' = 0),
        hs_linked =
          (if strcmp n1 ''spec'' = 0 then group_head fresh
           else parsed_group tyof
                  \<lparr>group_addr = a1, group_name = n1, group_agent = ?ag\<rparr> vs1 # group_head fresh),
        hs_mallocs = ms2\<rparr>)"
    using assms(3) assms(4) assms(5) assms(6) k1 k2 by (rule header_loop_two_groups)
  have "web100_agent_attach_local (Some (version @ [CHR 0x0A] @ ?X)) tyof sz fresh mallocs =
     Return (WEB100_ERR_SUCCESS,
       Some (fresh\<lparr>agent_hdr := ?ag, agent_version := version,
                   group_head :=
                     (if strcmp n2 ''spec'' = 0 then []
                      else [parsed_group tyof
                              \<lparr>group_addr = a2, group_name = n2, group_agent = ?ag\<rparr> vs2])
                     @ (if strcmp n1 ''spec'' = 0 then []
                        else [parsed_group tyof
                                \<lparr>group_addr = a1, group_name = n1, group_agent = ?ag\<rparr> vs1])
                     @ group_head fresh\<rparr>))"
    unfolding web100_agent_attach_local_def m0 m1 m2 list.case option.case Let_def sl
      outcome.case
    by (simp add: loop group_list_def del: header_loop.simps)
  then show ?thesis by blast
qed

lemmas scan_eval =
  scan_line_def scan_s_def scan_d_def scan_var_def header_step_def group_list_def
  link_var_def isspace_def isdigit_def dec_val_def digit_val_def INT_MAX_def INT_MIN_def
  Let_def

text \<open>
  The header is a version line followed by two groups, the group named \<^verbatim>\<open>spec\<close> with
  the variables \<open>svars\<close> and one other group \<open>gname\<close> with the \<open>N\<close> variables \<open>gvars\<close>, in
  either order; every record is a name, a decimal offset and a decimal type of a known
  size, and the version and the names fit their arrays. Memory is not exhausted. When
  the list head of the fresh agent, which the code does not initialise, happens to be
  \<^verbatim>\<open>NULL\<close>, \<^verbatim>\<open>_web100_agent_attach_local\<close> succeeds, and the list of groups of the
  agent has exactly one group: the group \<open>gname\<close>, with variable count \<open>N\<close>, with size the
  sum of the sizes of the types of its variables, and with its variables in the list (the
  last one first). The enumeration by \<^verbatim>\<open>web100_group_head\<close> and \<^verbatim>\<open>web100_group_next\<close>
  gives that group and then \<^verbatim>\<open>NULL\<close>; the lookup of \<^verbatim>\<open>spec\<close> finds nothing and the lookup
  of \<open>gname\<close> finds the group.
\<close>

lemma attach_spec_and_one_group:
  assumes "version \<noteq> []" and "CHR 0x0A \<notin> set version"
    and "name_ok (group_name_size sz) gname" and "gname \<noteq> ''spec''"
    and "\<forall>v\<in>set svars. var_ok tyof sz v" and "\<forall>v\<in>set gvars. var_ok tyof sz v"
    and "group_head fresh = []"
    and "list_all (\<lambda>m. m \<noteq> None) mallocs"
    and "3 + length svars + length gvars \<le> length mallocs"
    and "header = version @ [CHR 0x0A] @ group_text ''spec'' svars @ group_text gname gvars
         \<or> header = version @ [CHR 0x0A] @ group_text gname gvars @ group_text ''spec'' svars"
    and "length version < version_size sz" and "4 < group_name_size sz"
  shows "\<exists>agent G.
           web100_agent_attach_local (Some header) tyof sz fresh mallocs =
             Return (WEB100_ERR_SUCCESS, Some agent)
         \<and> group_head agent = [G]
         \<and> G = parsed_group tyof (group_hdr G) gvars
         \<and> group_name (group_hdr G) = gname
         \<and> group_nvars G = int (length gvars)
         \<and> group_size G = sum_list (map (var_size tyof) gvars)
         \<and> web100_group_head agent = ([G], WEB100_ERR_SUCCESS)
         \<and> web100_group_next [G] = Return ([], WEB100_ERR_SUCCESS)
         \<and> web100_group_find agent ''spec'' = (None, WEB100_ERR_SUCCESS)
         \<and> web100_group_find agent gname = (Some G, WEB100_ERR_SUCCESS)"
proof -
  note sp = name_ok_spec [OF assms(12)]
  have ne: "strcmp gname ''spec'' \<noteq> 0"
    using strcmp_names [OF assms(3) sp] assms(4) by simp
  have self: "strcmp gname gname = 0"
    using strcmp_names [OF assms(3) assms(3)] by simp
  have "\<exists>a0 a. web100_agent_attach_local (Some header) tyof sz fresh mallocs =
     Return (WEB100_ERR_SUCCESS,
       Some (fresh\<lparr>agent_hdr := \<lparr>agent_addr = a0, agent_type = WEB100_AGENT_TYPE_LOCAL\<rparr>,
                   agent_version := version,
                   group_head :=
                     [parsed_group tyof
                        \<lparr>group_addr = a, group_name = gname,
                         group_agent = \<lparr>agent_addr = a0,
                                         agent_type = WEB100_AGENT_TYPE_LOCAL\<rparr>\<rparr> gvars]\<rparr>))"
  proof -
    from assms(10) show ?thesis
    proof
      assume h: "header = version @ [CHR 0x0A] @ group_text ''spec'' svars @ group_text gname gvars"
      from attach_two [OF assms(1) assms(2) sp assms(3) assms(5) assms(6) assms(8)
          assms(9) assms(11), of fresh]
      obtain a0 a1 a2 where "web100_agent_attach_local (Some header) tyof sz fresh mallocs =
        Return (WEB100_ERR_SUCCESS,
          Some (fresh\<lparr>agent_hdr := \<lparr>agent_addr = a0, agent_type = WEB100_AGENT_TYPE_LOCAL\<rparr>,
                   agent_version := version,
                   group_head :=
                     [parsed_group tyof
                        \<lparr>group_addr = a2, group_name = gname,
                         group_agent = \<lparr>agent_addr = a0,
                                         agent_type = WEB100_AGENT_TYPE_LOCAL\<rparr>\<rparr> gvars]\<rparr>))"
        unfolding h using ne by (auto simp: assms(7))
      then show ?thesis by blast
    next
      assume h: "header = version @ [CHR 0x0A] @ group_text gname gvars @ group_text ''spec'' svars"
      have l: "3 + length gvars + length svars \<le> length mallocs" using assms(9) by simp
      from attach_two [OF assms(1) assms(2) assms(3) sp assms(6) assms(5) assms(8) l
          assms(11), of fresh]
      obtain a0 a1 a2 where "web100_agent_attach_local (Some header) tyof sz fresh mallocs =
        Return (WEB100_ERR_SUCCESS,
          Some (fresh\<lparr>agent_hdr := \<lparr>agent_addr = a0, agent_type = WEB100_AGENT_TYPE_LOCAL\<rparr>,
                   agent_version := version,
                   group_head :=
                     [parsed_group tyof
                        \<lparr>group_addr = a1, group_name = gname,
                         group_agent = \<lparr>agent_addr = a0,
                                         agent_type = WEB100_AGENT_TYPE_LOCAL\<rparr>\<rparr> gvars]\<rparr>))"
        unfolding h using ne by (auto simp: assms(7))
      then show ?thesis by blast
    qed
  qed
  then obtain a0 a where att: "web100_agent_attach_local (Some header) tyof sz fresh mallocs =
     Return (WEB100_ERR_SUCCESS,
       Some (fresh\<lparr>agent_hdr := \<lparr>agent_addr = a0, agent_type = WEB100_AGENT_TYPE_LOCAL\<rparr>,
                   agent_version := version,
                   group_head :=
                     [parsed_group tyof
                        \<lparr>group_addr = a, group_name = gname,
                         group_agent = \<lparr>agent_addr = a0,
                                         agent_type = WEB100_AGENT_TYPE_LOCAL\<rparr>\<rparr> gvars]\<rparr>))"
    by blast
  let ?hdr = "\<lparr>group_addr = a, group_name = gname,
               group_agent = \<lparr>agent_addr = a0, agent_type = WEB100_AGENT_TYPE_LOCAL\<rparr>\<rparr>"
  let ?G = "parsed_group tyof ?hdr gvars"
  let ?agent = "fresh\<lparr>agent_hdr := \<lparr>agent_addr = a0, agent_type = WEB100_AGENT_TYPE_LOCAL\<rparr>,
                     agent_version := version, group_head := [?G]\<rparr>"
  have hdr: "group_hdr ?G = ?hdr" by (simp add: parsed_group_def)
  have p1: "group_head ?agent = [?G]" by simp
  have p2: "?G = parsed_group tyof (group_hdr ?G) gvars" by (simp add: hdr)
  have p3: "group_name (group_hdr ?G) = gname" by (simp add: hdr)
  have p4: "group_nvars ?G = int (length gvars)" by (simp add: parsed_group_def)
  have p5: "group_size ?G = sum_list (map (var_size tyof) gvars)" by (simp add: parsed_group_def)
  have p6: "web100_group_head ?agent = ([?G], WEB100_ERR_SUCCESS)"
    by (simp add: web100_group_head_def)
  have p7: "web100_group_next [?G] = Return ([], WEB100_ERR_SUCCESS)"
    by (simp add: hdr)
  have p8: "web100_group_find ?agent ''spec'' = (None, WEB100_ERR_SUCCESS)"
    using ne by (simp add: web100_group_find_def hdr)
  have p9: "web100_group_find ?agent gname = (Some ?G, WEB100_ERR_SUCCESS)"
    using self by (simp add: web100_group_find_def hdr)
  from att p1 p2 p3 p4 p5 p6 p7 p8 p9 show ?thesis by blast
qed

lemma attach_spec_and_one_group_example:
  "web100_agent_attach_local
     (Some (''1.0.8'' @ [CHR 0x0A] @ group_text ''spec'' [(''LocalPort'', ''0'', ''8'')]
            @ group_text ''read'' [(''PktsOut'', ''0'', ''3''), (''DataBytesOut'', ''4'', ''7'')]))
     (\<lambda>i. if i = 3 then WEB100_TYPE_COUNTER32 else if i = 7 then WEB100_TYPE_COUNTER64
          else if i = 8 then WEB100_TYPE_UNSIGNED16 else WEB100_TYPE_OTHER i)
     \<lparr>version_size = 64, group_name_size = 32, var_name_size = 32\<rparr>
     \<lparr>agent_hdr = \<lparr>agent_addr = 0, agent_type = WEB100_AGENT_TYPE_OTHER 0\<rparr>,
      agent_version = [], group_head = [], connection_head = []\<rparr>
     [Some 10, Some 11, Some 12, Some 13, Some 14, Some 15]
   = Return (WEB100_ERR_SUCCESS,
       Some \<lparr>agent_hdr = \<lparr>agent_addr = 10, agent_type = WEB100_AGENT_TYPE_LOCAL\<rparr>,
         agent_version = ''1.0.8'',
         group_head =
           [\<lparr>group_hdr = \<lparr>group_addr = 13, group_name = ''read'',
               group_agent = \<lparr>agent_addr = 10, agent_type = WEB100_AGENT_TYPE_LOCAL\<rparr>\<rparr>,
             group_size = 12, group_nvars = 2,
             var_head =
               [\<lparr>var_name = ''DataBytesOut'', var_type = WEB100_TYPE_COUNTER64,
                 var_offset = 4,
                 var_group = \<lparr>group_addr = 13, group_name = ''read'',
                   group_agent = \<lparr>agent_addr = 10, agent_type = WEB100_AGENT_TYPE_LOCAL\<rparr>\<rparr>\<rparr>,
                \<lparr>var_name = ''PktsOut'', var_type = WEB100_TYPE_COUNTER32,
                 var_offset = 0,
                 var_group = \<lparr>group_addr = 13, group_name = ''read'',
                   group_agent = \<lparr>agent_addr = 10, agent_type = WEB100_AGENT_TYPE_LOCAL\<rparr>\<rparr>\<rparr>]\<rparr>],
         connection_head = []\<rparr>)"
proof -
  let ?tyof = "\<lambda>i. if i = 3 then WEB100_TYPE_COUNTER32 else if i = 7 then WEB100_TYPE_COUNTER64
          else if i = 8 then WEB100_TYPE_UNSIGNED16 else WEB100_TYPE_OTHER i"
  let ?sz = "\<lparr>version_size = 64, group_name_size = 32, var_name_size = 32\<rparr>"
  let ?fresh = "\<lparr>agent_hdr = \<lparr>agent_addr = 0, agent_type = WEB100_AGENT_TYPE_OTHER 0\<rparr>,
      agent_version = [], group_head = [], connection_head = []\<rparr>"
  let ?ms = "[Some 10, Some 11, Some 12, Some 13, Some 14, Some (15::nat)]"
  let ?svars = "[(''LocalPort'', ''0'', ''8'')]"
  let ?gvars = "[(''PktsOut'', ''0'', ''3''), (''DataBytesOut'', ''4'', ''7'')]"
  let ?header = "''1.0.8'' @ [CHR 0x0A] @ group_text ''spec'' ?svars @ group_text ''read'' ?gvars"
  have h1: "''1.0.8'' \<noteq> []" by simp
  have h2: "CHR 0x0A \<notin> set ''1.0.8''" by simp
  have h3: "name_ok (group_name_size ?sz) ''read''" by (simp add: name_ok_def isspace_def)
  have h4: "''read'' \<noteq> ''spec''" by simp
  have h5: "\<forall>v\<in>set ?svars. var_ok ?tyof ?sz v"
    by (simp add: var_ok_def name_ok_def numeral_ok_def isspace_def isdigit_def dec_val_def
        digit_val_def INT_MAX_def)
  have h6: "\<forall>v\<in>set ?gvars. var_ok ?tyof ?sz v"
    by (simp add: var_ok_def name_ok_def numeral_ok_def isspace_def isdigit_def dec_val_def
        digit_val_def INT_MAX_def)
  have h7: "group_head ?fresh = []" by simp
  have h8: "list_all (\<lambda>m. m \<noteq> None) ?ms" by simp
  have h9: "3 + length ?svars + length ?gvars \<le> length ?ms" by simp
  have h10: "?header = ''1.0.8'' @ [CHR 0x0A] @ group_text ''spec'' ?svars @ group_text ''read'' ?gvars
      \<or> ?header = ''1.0.8'' @ [CHR 0x0A] @ group_text ''read'' ?gvars @ group_text ''spec'' ?svars"
    by simp
  have h11: "length ''1.0.8'' < version_size ?sz" by simp
  have h12: "4 < group_name_size ?sz" by simp
  from attach_spec_and_one_group [OF h1 h2 h3 h4 h5 h6 h7 h8 h9 h10 h11 h12]
  obtain agent G where
    r: "web100_agent_attach_local (Some ?header) ?tyof ?sz ?fresh ?ms =
          Return (WEB100_ERR_SUCCESS, Some agent)"
    and g: "group_head agent = [G]" and n: "group_nvars G = int (length ?gvars)"
    by blast
  have e: "web100_agent_attach_local (Some ?header) ?tyof ?sz ?fresh ?ms =
     Return (WEB100_ERR_SUCCESS,
       Some \<lparr>agent_hdr = \<lparr>agent_addr = 10, agent_type = WEB100_AGENT_TYPE_LOCAL\<rparr>,
         agent_version = ''1.0.8'',
         group_head =
           [\<lparr>group_hdr = \<lparr>group_addr = 13, group_name = ''read'',
               group_agent = \<lparr>agent_addr = 10, agent_type = WEB100_AGENT_TYPE_LOCAL\<rparr>\<rparr>,
             group_size = 12, group_nvars = 2,
             var_head =
               [\<lparr>var_name = ''DataBytesOut'', var_type = WEB100_TYPE_COUNTER64,
                 var_offset = 4,
                 var_group = \<lparr>group_addr = 13, group_name = ''read'',
                   group_agent = \<lparr>agent_addr = 10, agent_type = WEB100_AGENT_TYPE_LOCAL\<rparr>\<rparr>\<rparr>,
                \<lparr>var_name = ''PktsOut'', var_type = WEB100_TYPE_COUNTER32,
                 var_offset = 0,
                 var_group = \<lparr>group_addr = 13, group_name = ''read'',
                   group_agent = \<lparr>agent_addr = 10, agent_type = WEB100_AGENT_TYPE_LOCAL\<rparr>\<rparr>\<rparr>]\<rparr>],
         connection_head = []\<rparr>)"
    by (simp add: web100_agent_attach_local_def scan_eval group_text_def var_text_def)
  from r g n e show ?thesis by simp
qed

text \<open>
  Claim C5, as stated, fails on the code. \<^verbatim>\<open>_web100_agent_attach_local\<close> never assigns
  the list head \<^verbatim>\<open>agent->info.local.group_head\<close> of the agent it allocates, and links the
  first group of the header in front of whatever the memory holds there (\<open>attach_two\<close>).
  Here the header has the group \<^verbatim>\<open>spec\<close> and the one ordinary group \<^verbatim>\<open>read\<close> with two
  variables, and the memory that \<^verbatim>\<open>malloc\<close> gives for the agent holds what an earlier
  agent left in it, with the list head at a group of that agent. The call succeeds, and
  the catalog exposes two groups, not one: the enumeration from \<^verbatim>\<open>web100_group_head\<close>
  gives the group read from the header and then the stale group. When the memory holds
  \<^verbatim>\<open>NULL\<close> there the catalog is as the claim says (\<open>attach_spec_and_one_group\<close>).
\<close>

theorem attach_keeps_stale_group_list:
  "web100_agent_attach_local
     (Some (''1.0.8'' @ [CHR 0x0A] @ group_text ''spec'' [(''LocalPort'', ''0'', ''8'')]
            @ group_text ''read'' [(''PktsOut'', ''0'', ''3''), (''DataBytesOut'', ''4'', ''7'')]))
     (\<lambda>i. if i = 3 then WEB100_TYPE_COUNTER32 else if i = 7 then WEB100_TYPE_COUNTER64
          else if i = 8 then WEB100_TYPE_UNSIGNED16 else WEB100_TYPE_OTHER i)
     \<lparr>version_size = 64, group_name_size = 32, var_name_size = 32\<rparr>
     \<lparr>agent_hdr = \<lparr>agent_addr = 10, agent_type = WEB100_AGENT_TYPE_LOCAL\<rparr>,
      agent_version = ''1.0.8'',
      group_head =
        [\<lparr>group_hdr = \<lparr>group_addr = 13, group_name = ''read'',
            group_agent = \<lparr>agent_addr = 10, agent_type = WEB100_AGENT_TYPE_LOCAL\<rparr>\<rparr>,
          group_size = 12, group_nvars = 2, var_head = []\<rparr>],
      connection_head = []\<rparr>
     [Some 20, Some 21, Some 22, Some 23, Some 24, Some 25]
   = Return (WEB100_ERR_SUCCESS,
       Some \<lparr>agent_hdr = \<lparr>agent_addr = 20, agent_type = WEB100_AGENT_TYPE_LOCAL\<rparr>,
         agent_version = ''1.0.8'',
         group_head =
           [\<lparr>group_hdr = \<lparr>group_addr = 23, group_name = ''read'',
               group_agent = \<lparr>agent_addr = 20, agent_type = WEB100_AGENT_TYPE_LOCAL\<rparr>\<rparr>,
             group_size = 12, group_nvars = 2,
             var_head =
               [\<lparr>var_name = ''DataBytesOut'', var_type = WEB100_TYPE_COUNTER64,
                 var_offset = 4,
                 var_group = \<lparr>group_addr = 23, group_name = ''read'',
                   group_agent = \<lparr>agent_addr = 20, agent_type = WEB100_AGENT_TYPE_LOCAL\<rparr>\<rparr>\<rparr>,
                \<lparr>var_name = ''PktsOut'', var_type = WEB100_TYPE_COUNTER32,
                 var_offset = 0,
                 var_group = \<lparr>group_addr = 23, group_name = ''read'',
                   group_agent = \<lparr>agent_addr = 20, agent_type = WEB100_AGENT_TYPE_LOCAL\<rparr>\<rparr>\<rparr>]\<rparr>,
            \<lparr>group_hdr = \<lparr>group_addr = 13, group_name = ''read'',
               group_agent = \<lparr>agent_addr = 10, agent_type = WEB100_AGENT_TYPE_LOCAL\<rparr>\<rparr>,
             group_size = 12, group_nvars = 2, var_head = []\<rparr>],
         connection_head = []\<rparr>)
   \<and> (case web100_agent_attach_local
            (Some (''1.0.8'' @ [CHR 0x0A] @ group_text ''spec'' [(''LocalPort'', ''0'', ''8'')]
                   @ group_text ''read''
                       [(''PktsOut'', ''0'', ''3''), (''DataBytesOut'', ''4'', ''7'')]))
            (\<lambda>i. if i = 3 then WEB100_TYPE_COUNTER32 else if i = 7 then WEB100_TYPE_COUNTER64
                 else if i = 8 then WEB100_TYPE_UNSIGNED16 else WEB100_TYPE_OTHER i)
            \<lparr>version_size = 64, group_name_size = 32, var_name_size = 32\<rparr>
            \<lparr>agent_hdr = \<lparr>agent_addr = 10, agent_type = WEB100_AGENT_TYPE_LOCAL\<rparr>,
             agent_version = ''1.0.8'',
             group_head =
               [\<lparr>group_hdr = \<lparr>group_addr = 13, group_name = ''read'',
                   group_agent = \<lparr>agent_addr = 10, agent_type = WEB100_AGENT_TYPE_LOCAL\<rparr>\<rparr>,
                 group_size = 12, group_nvars = 2, var_head = []\<rparr>],
             connection_head = []\<rparr>
            [Some 20, Some 21, Some 22, Some 23, Some 24, Some 25] of
         Return (r, Some agent) \<Rightarrow>
           map (\<lambda>g. (group_addr (group_hdr g), group_name (group_hdr g), group_nvars g))
             (fst (web100_group_head agent))
       | _ \<Rightarrow> [])
     = [(23, ''read'', 2), (13, ''read'', 2)]"
  by (simp add: web100_agent_attach_local_def scan_eval group_text_def var_text_def
      web100_group_head_def)

subsection \<open>Raw access\<close>

lemma raw_read_example:
  "web100_raw_read ''/proc/web100/''
     \<lparr>var_name = ''PktsOut'', var_type = WEB100_TYPE_COUNTER32, var_offset = 4,
      var_group = \<lparr>group_addr = 2, group_name = ''read'',
        group_agent = \<lparr>agent_addr = 1, agent_type = WEB100_AGENT_TYPE_LOCAL\<rparr>\<rparr>\<rparr>
     \<lparr>conn_agent = \<lparr>agent_addr = 1, agent_type = WEB100_AGENT_TYPE_LOCAL\<rparr>,
      conn_cid = 5, conn_spec = zero_spec\<rparr>
     [9, 9, 9, 9, 9]
     \<lparr>w_files = [''/proc/web100//5/read'' \<mapsto> [1, 2, 3, 4, 5, 6, 7, 8]],
      w_dirs = Map.empty, w_wfail = {}, w_log = [], web100_errno = 0\<rparr>
   = Return (0, [5, 6, 7, 8, 9],
       \<lparr>w_files = [''/proc/web100//5/read'' \<mapsto> [1, 2, 3, 4, 5, 6, 7, 8]],
        w_dirs = Map.empty, w_wfail = {},
        w_log = [Io_fclose ''/proc/web100//5/read'', Io_fread ''/proc/web100//5/read'' 4,
                 Io_fseek ''/proc/web100//5/read'' 4,
                 Io_fopen ''/proc/web100//5/read'' ''r''],
        web100_errno = 0\<rparr>)"
  by (simp add: web100_raw_read_def data_filename_def show_int_def digit_char_def c_str_def
      io_def store_def Let_def WEB100_ERR_SUCCESS_def)

text \<open>
  Claim C9. When the agent of the group of the variable is not the agent of the
  connection, \<^verbatim>\<open>web100_raw_read\<close> and \<^verbatim>\<open>web100_raw_write\<close> return \<^verbatim>\<open>-WEB100_ERR_INVAL\<close> and
  set the error number to \<^verbatim>\<open>WEB100_ERR_INVAL\<close>. Nothing else changes: the buffer is as it
  was, no call on a file is made (the log of calls is unchanged) and the files hold what
  they held.
\<close>

theorem raw_access_agent_mismatch:
  assumes "agent_addr (group_agent (var_group var)) \<noteq> agent_addr (conn_agent conn)"
  shows "web100_raw_read root var conn buf w =
           Return (- WEB100_ERR_INVAL, buf, w\<lparr>web100_errno := WEB100_ERR_INVAL\<rparr>)
         \<and> web100_raw_write root var conn buf w =
           Return (- WEB100_ERR_INVAL, w\<lparr>web100_errno := WEB100_ERR_INVAL\<rparr>)
         \<and> w_log (w\<lparr>web100_errno := WEB100_ERR_INVAL\<rparr>) = w_log w
         \<and> w_files (w\<lparr>web100_errno := WEB100_ERR_INVAL\<rparr>) = w_files w"
  using assms by (simp add: web100_raw_read_def web100_raw_write_def)

theorem raw_access_agent_mismatch_witness:
  "web100_raw_read ''/proc/web100/''
     \<lparr>var_name = ''PktsOut'', var_type = WEB100_TYPE_COUNTER32, var_offset = 4,
      var_group = \<lparr>group_addr = 2, group_name = ''read'',
        group_agent = \<lparr>agent_addr = 1, agent_type = WEB100_AGENT_TYPE_LOCAL\<rparr>\<rparr>\<rparr>
     \<lparr>conn_agent = \<lparr>agent_addr = 7, agent_type = WEB100_AGENT_TYPE_LOCAL\<rparr>,
      conn_cid = 5, conn_spec = zero_spec\<rparr>
     [9, 9, 9, 9]
     \<lparr>w_files = [''/proc/web100//5/read'' \<mapsto> [1, 2, 3, 4, 5, 6, 7, 8]],
      w_dirs = Map.empty, w_wfail = {}, w_log = [], web100_errno = 0\<rparr>
   = Return (- 5, [9, 9, 9, 9],
       \<lparr>w_files = [''/proc/web100//5/read'' \<mapsto> [1, 2, 3, 4, 5, 6, 7, 8]],
        w_dirs = Map.empty, w_wfail = {}, w_log = [], web100_errno = 5\<rparr>)
   \<and> web100_raw_write ''/proc/web100/''
     \<lparr>var_name = ''PktsOut'', var_type = WEB100_TYPE_COUNTER32, var_offset = 4,
      var_group = \<lparr>group_addr = 2, group_name = ''read'',
        group_agent = \<lparr>agent_addr = 1, agent_type = WEB100_AGENT_TYPE_LOCAL\<rparr>\<rparr>\<rparr>
     \<lparr>conn_agent = \<lparr>agent_addr = 7, agent_type = WEB100_AGENT_TYPE_LOCAL\<rparr>,
      conn_cid = 5, conn_spec = zero_spec\<rparr>
     [9, 9, 9, 9]
     \<lparr>w_files = [''/proc/web100//5/read'' \<mapsto> [1, 2, 3, 4, 5, 6, 7, 8]],
      w_dirs = Map.empty, w_wfail = {}, w_log = [], web100_errno = 0\<rparr>
   = Return (- 5,
       \<lparr>w_files = [''/proc/web100//5/read'' \<mapsto> [1, 2, 3, 4, 5, 6, 7, 8]],
        w_dirs = Map.empty, w_wfail = {}, w_log = [], web100_errno = 5\<rparr>)"
proof -
  let ?var = "\<lparr>var_name = ''PktsOut'', var_type = WEB100_TYPE_COUNTER32, var_offset = 4,
      var_group = \<lparr>group_addr = 2, group_name = ''read'',
        group_agent = \<lparr>agent_addr = 1, agent_type = WEB100_AGENT_TYPE_LOCAL\<rparr>\<rparr>\<rparr>"
  let ?conn = "\<lparr>conn_agent = \<lparr>agent_addr = 7, agent_type = WEB100_AGENT_TYPE_LOCAL\<rparr>,
      conn_cid = 5, conn_spec = zero_spec\<rparr>"
  have h: "agent_addr (group_agent (var_group ?var)) \<noteq> agent_addr (conn_agent ?conn)"
    by simp
  from raw_access_agent_mismatch [OF h] show ?thesis
    by (simp add: WEB100_ERR_INVAL_def)
qed

subsection \<open>Snapshots and deltas\<close>












lemma length_var_bytes:
  "nat off + n \<le> length d \<Longrightarrow> length (take n (drop (nat off) d)) = n"
  by simp



subsection \<open>The correlation join\<close>

lemma fd_loop_eq:
  "fd_loop a b C (fe, res) =
     (if \<exists>c\<in>set C. ci_ino c = ci_ino b then 1 else fe,
      rev (map (fd_record a b) (filter (\<lambda>c. ci_ino c = ci_ino b) C)) @ res)"
  by (induction C arbitrary: fe res) auto

lemma matched_body_eq:
  "matched_body a b C res =
     (if \<exists>c\<in>set C. ci_ino c = ci_ino b
      then rev (map (fd_record a b) (filter (\<lambda>c. ci_ino c = ci_ino b) C))
      else [nofd_record a b]) @ res"
  by (auto simp: matched_body_def fd_loop_eq filter_empty_conv)

lemma matched_body_acc: "matched_body a b C res = matched_body a b C [] @ res"
  by (simp add: matched_body_eq)

lemma tcp_loop_eq:
  "tcp_loop a B C (te, res) =
     (if \<exists>b\<in>set B. tuple_match b a then 1 else te,
      concat (rev (map (\<lambda>b. matched_body a b C []) (filter (\<lambda>b. tuple_match b a) B))) @ res)"
proof (induction B arbitrary: te res)
  case Nil
  show ?case by simp
next
  case (Cons b B)
  show ?case
    by (simp add: Cons.IH matched_body_acc [of a b C res])
qed

lemma tcp_loop_no_match:
  "\<forall>b\<in>set B. \<not> tuple_match b a \<Longrightarrow> tcp_loop a B C (te, res) = (te, res)"
  by (simp add: tcp_loop_eq filter_False)

lemma collate_Cons:
  "collate (a # A) B C res = collate A B C (collate [a] B C [] @ res)"
  by (simp add: tcp_loop_eq)

lemma collate_acc: "collate A B C res = collate A B C [] @ res"
proof (induction A arbitrary: res)
  case Nil
  show ?case by simp
next
  case (Cons a A)
  let ?S = "collate [a] B C []"
  have "collate (a # A) B C res = collate A B C (?S @ res)"
    by (rule collate_Cons)
  also have "\<dots> = collate A B C [] @ ?S @ res"
    by (rule Cons.IH)
  also have "\<dots> = collate A B C ?S @ res"
    using Cons.IH [of ?S] by simp
  also have "collate A B C ?S = collate (a # A) B C []"
    using collate_Cons [of a A B C "[]"] by simp
  finally show ?case .
qed

lemma collate_append:
  "collate (A1 @ A2) B C res = collate A2 B C (collate A1 B C res)"
  by (induction A1 arbitrary: res) (auto split: prod.splits)

lemma collate_split:
  "collate (pre @ a # post) B C [] =
     collate post B C [] @ collate [a] B C [] @ collate pre B C []"
proof -
  have "collate (pre @ a # post) B C [] = collate ([a] @ post) B C (collate pre B C [])"
    by (simp add: collate_append)
  also have "\<dots> = collate post B C (collate [a] B C (collate pre B C []))"
    by (simp only: collate_append)
  also have "\<dots> = collate post B C [] @ collate [a] B C [] @ collate pre B C []"
    using collate_acc [of post B C "collate [a] B C (collate pre B C [])"]
      collate_acc [of "[a]" B C "collate pre B C []"] by simp
  finally show ?thesis .
qed

lemma collate_single:
  "collate [a] B C [] =
     (if \<exists>b\<in>set B. tuple_match b a
      then concat (rev (map (\<lambda>b. matched_body a b C []) (filter (\<lambda>b. tuple_match b a) B)))
      else [residual_record a])"
  by (simp add: tcp_loop_eq filter_False)

lemma residual_fields:
  "ci_cid (residual_record a) = ci_cid a"
  "ci_addrtype (residual_record a) = ci_addrtype a"
  "ci_pid (residual_record a) = 0"
  "ci_uid (residual_record a) = 0"
  "ci_state (residual_record a) = 0"
  "ci_cmdline (residual_record a) = []"
  "ci_addrtype a = WEB100_ADDRTYPE_IPV4 \<Longrightarrow> ci_spec (residual_record a) = ci_spec a"
  "ci_addrtype a = WEB100_ADDRTYPE_IPV6 \<Longrightarrow> ci_spec_v6 (residual_record a) = ci_spec_v6 a"
  by (simp_all add: residual_record_def copy_spec_def bzero_info_def Let_def)

lemma tuple_match_same_family:
  "ci_addrtype b = ci_addrtype a \<Longrightarrow>
   tuple_match b a \<longleftrightarrow>
     (ci_addrtype a = WEB100_ADDRTYPE_IPV4 \<and>
        dst_addr (ci_spec b) = dst_addr (ci_spec a) \<and>
        dst_port (ci_spec b) = dst_port (ci_spec a) \<and>
        src_port (ci_spec b) = src_port (ci_spec a)) \<or>
     (ci_addrtype a = WEB100_ADDRTYPE_IPV6 \<and>
        c_str (dst_addr6 (ci_spec_v6 b)) = c_str (dst_addr6 (ci_spec_v6 a)) \<and>
        dst_port6 (ci_spec_v6 b) = dst_port6 (ci_spec_v6 a) \<and>
        src_port6 (ci_spec_v6 b) = src_port6 (ci_spec_v6 a))"
  by (auto simp: tuple_match_def strcmp_eq_0_iff)

lemma spec_match_same_family:
  "ci_addrtype b = ci_addrtype a \<Longrightarrow> spec_match b a \<longleftrightarrow> tuple_match b a"
  by (auto simp: spec_match_def tuple_match_def strcmp_eq_0_iff split: WEB100_ADDRTYPE.splits)

lemma spec_match_tuple_match: "spec_match b a \<Longrightarrow> tuple_match b a"
  by (auto simp: spec_match_def tuple_match_def strcmp_eq_0_iff split: WEB100_ADDRTYPE.splits)

lemma nofd_fields:
  "ci_cid (nofd_record a b) = ci_cid a"
  "ci_addrtype (nofd_record a b) = ci_addrtype a"
  "ci_pid (nofd_record a b) = 0"
  "ci_uid (nofd_record a b) = ci_uid b"
  "ci_state (nofd_record a b) = ci_state b"
  "ci_cmdline (nofd_record a b) = []"
  "ci_addrtype a = WEB100_ADDRTYPE_IPV4 \<Longrightarrow> ci_spec (nofd_record a b) = ci_spec a"
  "ci_addrtype a = WEB100_ADDRTYPE_IPV6 \<Longrightarrow> ci_spec_v6 (nofd_record a b) = ci_spec_v6 a"
  by (simp_all add: nofd_record_def copy_spec_def bzero_info_def Let_def)

lemma fd_fields:
  "ci_cid (fd_record a b c) = ci_cid a"
  "ci_addrtype (fd_record a b c) = ci_addrtype a"
  "ci_pid (fd_record a b c) = ci_pid c"
  "ci_uid (fd_record a b c) = ci_uid b"
  "ci_state (fd_record a b c) = ci_state b"
  "ci_cmdline (fd_record a b c) = take 256 (c_str (ci_cmdline c))"
  "ci_addrtype a = WEB100_ADDRTYPE_IPV4 \<Longrightarrow> ci_spec (fd_record a b c) = ci_spec a"
  "ci_addrtype a = WEB100_ADDRTYPE_IPV6 \<Longrightarrow> ci_spec_v6 (fd_record a b c) = ci_spec_v6 a"
  by (simp_all add: fd_record_def copy_spec_def bzero_info_def Let_def strncpy_def)

text \<open>
  Claim C1. The claim says that a socket entry is taken for a match only when its address
  family is that of the catalog record. The test reads the family of the socket entry only
  and never the family of the catalog record: for an IPv4 socket entry it compares the
  IPv4 tuple members of both records whatever the family of the catalog record is. Here
  the catalog record is an IPv6 connection whose IPv4 tuple member, which the code never
  writes for such a record, holds the bytes of the IPv4 socket entry. The test succeeds,
  and the result attributes the uid and the state of the IPv4 socket to the IPv6
  connection. When the two families are equal the test is the one the claim describes
  (\<open>tuple_match_same_family\<close>).
\<close>

theorem cross_family_entry_matches:
  "tuple_match
     (bzero_info\<lparr>ci_addrtype := WEB100_ADDRTYPE_IPV4,
        ci_spec := \<lparr>dst_port = 80, dst_addr = 0x0A000001, src_port = 4000,
                    src_addr = 0x0A000002\<rparr>,
        ci_uid := 1000, ci_ino := 123, ci_state := 1\<rparr>)
     (bzero_info\<lparr>ci_cid := 7, ci_addrtype := WEB100_ADDRTYPE_IPV6,
        ci_spec := \<lparr>dst_port = 80, dst_addr = 0x0A000001, src_port = 4000,
                    src_addr = 0\<rparr>,
        ci_spec_v6 := \<lparr>dst_port6 = 443, dst_addr6 = ''fe80'', src_port6 = 5000,
                       src_addr6 = ''fe81''\<rparr>\<rparr>)
   \<and> map (\<lambda>r. (ci_cid r, ci_addrtype r, ci_uid r, ci_state r, ci_pid r))
       (collate
          [bzero_info\<lparr>ci_cid := 7, ci_addrtype := WEB100_ADDRTYPE_IPV6,
             ci_spec := \<lparr>dst_port = 80, dst_addr = 0x0A000001, src_port = 4000,
                         src_addr = 0\<rparr>,
             ci_spec_v6 := \<lparr>dst_port6 = 443, dst_addr6 = ''fe80'', src_port6 = 5000,
                            src_addr6 = ''fe81''\<rparr>\<rparr>]
          [bzero_info\<lparr>ci_addrtype := WEB100_ADDRTYPE_IPV4,
             ci_spec := \<lparr>dst_port = 80, dst_addr = 0x0A000001, src_port = 4000,
                         src_addr = 0x0A000002\<rparr>,
             ci_uid := 1000, ci_ino := 123, ci_state := 1\<rparr>]
          [] [])
     = [(7, WEB100_ADDRTYPE_IPV6, 1000, 1, 0)]"
  by (simp add: tuple_match_def bzero_info_def matched_body_def nofd_record_def
      copy_spec_def Let_def)

text \<open>
  The residual record. A catalog record \<open>a\<close> for which the test of the inner loop fails
  for every socket entry contributes exactly one record to the result, wherever \<open>a\<close>
  stands in the catalog list: the result is the records of the later catalog records, then
  this one record, then the records of the earlier ones. The record carries the connection
  id and the address family of \<open>a\<close> and the 4-tuple of that family; its pid, uid and socket
  state are zero and its command name is empty. The hypothesis is the test of the code;
  for socket entries of the family of \<open>a\<close> it is the match of the specification
  (\<open>spec_match_same_family\<close>).
\<close>

lemma unmatched_record_residual:
  assumes "\<forall>b\<in>set tcp_head. \<not> tuple_match b a"
  shows "collate (pre @ a # post) tcp_head fd_head [] =
           collate post tcp_head fd_head [] @ [residual_record a]
             @ collate pre tcp_head fd_head []
         \<and> ci_cid (residual_record a) = ci_cid a
         \<and> ci_addrtype (residual_record a) = ci_addrtype a
         \<and> (ci_addrtype a = WEB100_ADDRTYPE_IPV4 \<longrightarrow>
              ci_spec (residual_record a) = ci_spec a)
         \<and> (ci_addrtype a = WEB100_ADDRTYPE_IPV6 \<longrightarrow>
              ci_spec_v6 (residual_record a) = ci_spec_v6 a)
         \<and> ci_pid (residual_record a) = 0
         \<and> ci_uid (residual_record a) = 0
         \<and> ci_state (residual_record a) = 0
         \<and> ci_cmdline (residual_record a) = []"
proof -
  from assms have "collate [a] tcp_head fd_head [] = [residual_record a]"
    by (simp only: collate_single) simp
  then have "collate (pre @ a # post) tcp_head fd_head [] =
      collate post tcp_head fd_head [] @ [residual_record a] @ collate pre tcp_head fd_head []"
    using collate_split [of pre a post tcp_head fd_head] by simp
  then show ?thesis
    by (simp add: residual_fields)
qed

lemma unmatched_record_residual_example:
  "collate
     [bzero_info\<lparr>ci_cid := 5, ci_addrtype := WEB100_ADDRTYPE_IPV4,
        ci_spec := \<lparr>dst_port = 80, dst_addr = 0x0A000001, src_port = 4000,
                    src_addr = 0x0A000002\<rparr>\<rparr>]
     [bzero_info\<lparr>ci_addrtype := WEB100_ADDRTYPE_IPV4,
        ci_spec := \<lparr>dst_port = 22, dst_addr = 0x0A000001, src_port = 4000,
                    src_addr = 0x0A000002\<rparr>,
        ci_uid := 1000, ci_ino := 123, ci_state := 1\<rparr>]
     [bzero_info\<lparr>ci_pid := 42, ci_ino := 123, ci_cmdline := ''curl''\<rparr>]
     []
   = [\<lparr>ci_cid = 5, ci_addrtype = WEB100_ADDRTYPE_IPV4,
       ci_spec = \<lparr>dst_port = 80, dst_addr = 0x0A000001, src_port = 4000,
                   src_addr = 0x0A000002\<rparr>,
       ci_spec_v6 = zero_spec_v6, ci_cmdline = [], ci_pid = 0, ci_uid = 0, ci_ino = 0,
       ci_state = 0\<rparr>]
   \<and> ci_spec_v6 (residual_record
        (bzero_info\<lparr>ci_cid := 6, ci_addrtype := WEB100_ADDRTYPE_IPV6,
           ci_spec_v6 := \<lparr>dst_port6 = 443, dst_addr6 = ''fe80'', src_port6 = 5000,
                          src_addr6 = ''fe81''\<rparr>\<rparr>))
     = \<lparr>dst_port6 = 443, dst_addr6 = ''fe80'', src_port6 = 5000, src_addr6 = ''fe81''\<rparr>"
proof -
  let ?b = "bzero_info\<lparr>ci_addrtype := WEB100_ADDRTYPE_IPV4,
        ci_spec := \<lparr>dst_port = 22, dst_addr = 0x0A000001, src_port = 4000,
                    src_addr = 0x0A000002\<rparr>,
        ci_uid := 1000, ci_ino := 123, ci_state := 1\<rparr>"
  let ?a = "bzero_info\<lparr>ci_cid := 5, ci_addrtype := WEB100_ADDRTYPE_IPV4,
        ci_spec := \<lparr>dst_port = 80, dst_addr = 0x0A000001, src_port = 4000,
                    src_addr = 0x0A000002\<rparr>\<rparr>"
  let ?c = "bzero_info\<lparr>ci_pid := 42, ci_ino := 123, ci_cmdline := ''curl''\<rparr>"
  let ?a6 = "bzero_info\<lparr>ci_cid := 6, ci_addrtype := WEB100_ADDRTYPE_IPV6,
        ci_spec_v6 := \<lparr>dst_port6 = 443, dst_addr6 = ''fe80'', src_port6 = 5000,
                       src_addr6 = ''fe81''\<rparr>\<rparr>"
  have h4: "\<forall>b\<in>set [?b]. \<not> tuple_match b ?a"
    by (simp add: tuple_match_def bzero_info_def)
  have h6: "\<forall>b\<in>set [?b]. \<not> tuple_match b ?a6"
    by (simp add: tuple_match_def bzero_info_def zero_spec_def)
  have t4: "ci_addrtype ?a = WEB100_ADDRTYPE_IPV4" by simp
  have t6: "ci_addrtype ?a6 = WEB100_ADDRTYPE_IPV6" by simp
  from unmatched_record_residual [OF h4, of "[]" "[]" "[?c]"]
  have r4: "collate [?a] [?b] [?c] [] = [residual_record ?a]"
    and s4: "ci_spec (residual_record ?a) = ci_spec ?a"
    and z4: "ci_pid (residual_record ?a) = 0" "ci_uid (residual_record ?a) = 0"
      "ci_state (residual_record ?a) = 0" "ci_cmdline (residual_record ?a) = []"
    using t4 by simp_all
  from unmatched_record_residual [OF h6, of "[]" "[]" "[?c]"]
  have s6: "ci_spec_v6 (residual_record ?a6) = ci_spec_v6 ?a6"
    using t6 by simp
  have e: "residual_record ?a =
      \<lparr>ci_cid = 5, ci_addrtype = WEB100_ADDRTYPE_IPV4,
       ci_spec = \<lparr>dst_port = 80, dst_addr = 0x0A000001, src_port = 4000,
                   src_addr = 0x0A000002\<rparr>,
       ci_spec_v6 = zero_spec_v6, ci_cmdline = [], ci_pid = 0, ci_uid = 0, ci_ino = 0,
       ci_state = 0\<rparr>"
    by (simp add: residual_record_def copy_spec_def bzero_info_def Let_def)
  from r4 e s6 show ?thesis by simp
qed

text \<open>
  Claim C2, as stated, fails on the code; the defect is the one of claim C1. The catalog
  holds one record, an IPv6 connection; its IPv4 tuple member, which the code never writes
  for such a record, holds the bytes of the IPv4 tuple of the only socket entry. No socket
  entry matches the record in the sense of the specification (\<open>spec_match\<close>: the families
  differ), so by the claim the result is one record with pid, uid and socket state zero,
  the residual record (third part). The code takes the socket entry for a match, since its
  test never reads the family of the catalog record: the one record of the result carries
  the uid 1000 and the state 1 of the IPv4 socket (second part).
\<close>

theorem unmatched_record_takes_socket_fields:
  "\<not> spec_match
       (bzero_info\<lparr>ci_addrtype := WEB100_ADDRTYPE_IPV4,
          ci_spec := \<lparr>dst_port = 80, dst_addr = 0x0A000001, src_port = 4000,
                      src_addr = 0x0A000002\<rparr>,
          ci_uid := 1000, ci_ino := 123, ci_state := 1\<rparr>)
       (bzero_info\<lparr>ci_cid := 7, ci_addrtype := WEB100_ADDRTYPE_IPV6,
          ci_spec := \<lparr>dst_port = 80, dst_addr = 0x0A000001, src_port = 4000,
                      src_addr = 0\<rparr>,
          ci_spec_v6 := \<lparr>dst_port6 = 443, dst_addr6 = ''fe80'', src_port6 = 5000,
                         src_addr6 = ''fe81''\<rparr>\<rparr>)
   \<and> map (\<lambda>r. (ci_cid r, ci_addrtype r, ci_spec_v6 r, ci_pid r, ci_uid r, ci_state r,
               ci_cmdline r))
       (collate
          [bzero_info\<lparr>ci_cid := 7, ci_addrtype := WEB100_ADDRTYPE_IPV6,
             ci_spec := \<lparr>dst_port = 80, dst_addr = 0x0A000001, src_port = 4000,
                         src_addr = 0\<rparr>,
             ci_spec_v6 := \<lparr>dst_port6 = 443, dst_addr6 = ''fe80'', src_port6 = 5000,
                            src_addr6 = ''fe81''\<rparr>\<rparr>]
          [bzero_info\<lparr>ci_addrtype := WEB100_ADDRTYPE_IPV4,
             ci_spec := \<lparr>dst_port = 80, dst_addr = 0x0A000001, src_port = 4000,
                         src_addr = 0x0A000002\<rparr>,
             ci_uid := 1000, ci_ino := 123, ci_state := 1\<rparr>]
          [] [])
     = [(7, WEB100_ADDRTYPE_IPV6,
         \<lparr>dst_port6 = 443, dst_addr6 = ''fe80'', src_port6 = 5000, src_addr6 = ''fe81''\<rparr>,
         0, 1000, 1, [])]
   \<and> map (\<lambda>r. (ci_cid r, ci_addrtype r, ci_spec_v6 r, ci_pid r, ci_uid r, ci_state r,
               ci_cmdline r))
       [residual_record
          (bzero_info\<lparr>ci_cid := 7, ci_addrtype := WEB100_ADDRTYPE_IPV6,
             ci_spec := \<lparr>dst_port = 80, dst_addr = 0x0A000001, src_port = 4000,
                         src_addr = 0\<rparr>,
             ci_spec_v6 := \<lparr>dst_port6 = 443, dst_addr6 = ''fe80'', src_port6 = 5000,
                            src_addr6 = ''fe81''\<rparr>\<rparr>)]
     = [(7, WEB100_ADDRTYPE_IPV6,
         \<lparr>dst_port6 = 443, dst_addr6 = ''fe80'', src_port6 = 5000, src_addr6 = ''fe81''\<rparr>,
         0, 0, 0, [])]"
  by (simp add: spec_match_def tuple_match_def bzero_info_def matched_body_def nofd_record_def
      residual_record_def copy_spec_def Let_def)

text \<open>
  Claim C3. Let the socket entry \<open>b\<close> pass the test for the catalog record \<open>a\<close>. The
  records that the pair contributes to the result are \<open>matched_body a b fd_head []\<close>, a
  segment of the result list. When no descriptor entry has the inode of \<open>b\<close> the segment
  is exactly one record, with the connection id and tuple of \<open>a\<close>, the socket state and uid
  of \<open>b\<close>, pid zero and an empty command name. When one or more descriptor entries have
  that inode the segment holds one record for each of them (the list is built by linking
  at the head, so the order is reversed), with the pid and the command name of the
  descriptor entry; the command name is copied by \<^verbatim>\<open>strncpy\<close> with a bound of 256 bytes.
\<close>

theorem matched_entry_records:
  assumes "tuple_match b a"
  shows "collate (pre @ a # post) (tcp_pre @ b # tcp_post) fd_head [] =
           collate post (tcp_pre @ b # tcp_post) fd_head []
           @ concat (rev (map (\<lambda>b'. matched_body a b' fd_head [])
                            (filter (\<lambda>b'. tuple_match b' a) tcp_post)))
           @ matched_body a b fd_head []
           @ concat (rev (map (\<lambda>b'. matched_body a b' fd_head [])
                            (filter (\<lambda>b'. tuple_match b' a) tcp_pre)))
           @ collate pre (tcp_pre @ b # tcp_post) fd_head []
         \<and> ((\<forall>c\<in>set fd_head. ci_ino c \<noteq> ci_ino b) \<longrightarrow>
              matched_body a b fd_head [] = [nofd_record a b])
         \<and> ((\<exists>c\<in>set fd_head. ci_ino c = ci_ino b) \<longrightarrow>
              matched_body a b fd_head [] =
                rev (map (fd_record a b) (filter (\<lambda>c. ci_ino c = ci_ino b) fd_head)))
         \<and> ci_cid (nofd_record a b) = ci_cid a
         \<and> ci_addrtype (nofd_record a b) = ci_addrtype a
         \<and> ci_state (nofd_record a b) = ci_state b
         \<and> ci_uid (nofd_record a b) = ci_uid b
         \<and> ci_pid (nofd_record a b) = 0
         \<and> ci_cmdline (nofd_record a b) = []
         \<and> (\<forall>c. ci_cid (fd_record a b c) = ci_cid a
              \<and> ci_addrtype (fd_record a b c) = ci_addrtype a
              \<and> ci_state (fd_record a b c) = ci_state b
              \<and> ci_uid (fd_record a b c) = ci_uid b
              \<and> ci_pid (fd_record a b c) = ci_pid c
              \<and> ci_cmdline (fd_record a b c) = take 256 (c_str (ci_cmdline c)))
         \<and> (ci_addrtype a = WEB100_ADDRTYPE_IPV4 \<longrightarrow>
              ci_spec (nofd_record a b) = ci_spec a
              \<and> (\<forall>c. ci_spec (fd_record a b c) = ci_spec a))
         \<and> (ci_addrtype a = WEB100_ADDRTYPE_IPV6 \<longrightarrow>
              ci_spec_v6 (nofd_record a b) = ci_spec_v6 a
              \<and> (\<forall>c. ci_spec_v6 (fd_record a b c) = ci_spec_v6 a))"
proof -
  let ?B = "tcp_pre @ b # tcp_post"
  from assms have ex: "\<exists>b'\<in>set ?B. tuple_match b' a" by auto
  have "collate [a] ?B fd_head [] =
      concat (rev (map (\<lambda>b'. matched_body a b' fd_head [])
                       (filter (\<lambda>b'. tuple_match b' a) ?B)))"
    using ex by (simp only: collate_single if_True)
  also have "\<dots> =
      concat (rev (map (\<lambda>b'. matched_body a b' fd_head [])
                       (filter (\<lambda>b'. tuple_match b' a) tcp_post)))
      @ matched_body a b fd_head []
      @ concat (rev (map (\<lambda>b'. matched_body a b' fd_head [])
                       (filter (\<lambda>b'. tuple_match b' a) tcp_pre)))"
    using assms by simp
  finally have one: "collate [a] ?B fd_head [] =
      concat (rev (map (\<lambda>b'. matched_body a b' fd_head [])
                       (filter (\<lambda>b'. tuple_match b' a) tcp_post)))
      @ matched_body a b fd_head []
      @ concat (rev (map (\<lambda>b'. matched_body a b' fd_head [])
                       (filter (\<lambda>b'. tuple_match b' a) tcp_pre)))" .
  have whole: "collate (pre @ a # post) ?B fd_head [] =
      collate post ?B fd_head [] @ collate [a] ?B fd_head [] @ collate pre ?B fd_head []"
    by (rule collate_split)
  have none: "(\<forall>c\<in>set fd_head. ci_ino c \<noteq> ci_ino b) \<longrightarrow>
      matched_body a b fd_head [] = [nofd_record a b]"
    by (simp add: matched_body_eq)
  have some: "(\<exists>c\<in>set fd_head. ci_ino c = ci_ino b) \<longrightarrow>
      matched_body a b fd_head [] =
        rev (map (fd_record a b) (filter (\<lambda>c. ci_ino c = ci_ino b) fd_head))"
    by (simp add: matched_body_eq)
  show ?thesis
    unfolding whole one using none some
    by (simp add: nofd_fields fd_fields)
qed

theorem matched_entry_records_witness:
  "map (\<lambda>r. (ci_cid r, ci_pid r, ci_cmdline r, ci_uid r, ci_state r, ci_spec r))
     (collate
        [bzero_info\<lparr>ci_cid := 5, ci_addrtype := WEB100_ADDRTYPE_IPV4,
           ci_spec := \<lparr>dst_port = 80, dst_addr = 0x0A000001, src_port = 4000,
                       src_addr = 0x0A000002\<rparr>\<rparr>]
        [bzero_info\<lparr>ci_addrtype := WEB100_ADDRTYPE_IPV4,
           ci_spec := \<lparr>dst_port = 80, dst_addr = 0x0A000001, src_port = 4000,
                       src_addr = 0x0A000002\<rparr>,
           ci_uid := 1000, ci_ino := 123, ci_state := 1\<rparr>]
        [bzero_info\<lparr>ci_pid := 42, ci_ino := 123, ci_cmdline := ''curl''\<rparr>]
        [])
   = [(5, 42, ''curl'', 1000, 1,
       \<lparr>dst_port = 80, dst_addr = 0x0A000001, src_port = 4000, src_addr = 0x0A000002\<rparr>)]
   \<and> map (\<lambda>r. (ci_cid r, ci_pid r, ci_cmdline r, ci_uid r, ci_state r, ci_spec_v6 r))
     (collate
        [bzero_info\<lparr>ci_cid := 6, ci_addrtype := WEB100_ADDRTYPE_IPV6,
           ci_spec_v6 := \<lparr>dst_port6 = 443, dst_addr6 = ''fe80'', src_port6 = 5000,
                          src_addr6 = ''fe81''\<rparr>\<rparr>]
        [bzero_info\<lparr>ci_addrtype := WEB100_ADDRTYPE_IPV6,
           ci_spec_v6 := \<lparr>dst_port6 = 443, dst_addr6 = ''fe80'', src_port6 = 5000,
                          src_addr6 = ''fe82''\<rparr>,
           ci_uid := 1000, ci_ino := 123, ci_state := 1\<rparr>]
        []
        [])
   = [(6, 0, [], 1000, 1,
       \<lparr>dst_port6 = 443, dst_addr6 = ''fe80'', src_port6 = 5000, src_addr6 = ''fe81''\<rparr>)]"
proof -
  let ?b = "bzero_info\<lparr>ci_addrtype := WEB100_ADDRTYPE_IPV4,
           ci_spec := \<lparr>dst_port = 80, dst_addr = 0x0A000001, src_port = 4000,
                       src_addr = 0x0A000002\<rparr>,
           ci_uid := 1000, ci_ino := 123, ci_state := 1\<rparr>"
  let ?a = "bzero_info\<lparr>ci_cid := 5, ci_addrtype := WEB100_ADDRTYPE_IPV4,
           ci_spec := \<lparr>dst_port = 80, dst_addr = 0x0A000001, src_port = 4000,
                       src_addr = 0x0A000002\<rparr>\<rparr>"
  let ?c = "bzero_info\<lparr>ci_pid := 42, ci_ino := 123, ci_cmdline := ''curl''\<rparr>"
  let ?b6 = "bzero_info\<lparr>ci_addrtype := WEB100_ADDRTYPE_IPV6,
           ci_spec_v6 := \<lparr>dst_port6 = 443, dst_addr6 = ''fe80'', src_port6 = 5000,
                          src_addr6 = ''fe82''\<rparr>,
           ci_uid := 1000, ci_ino := 123, ci_state := 1\<rparr>"
  let ?a6 = "bzero_info\<lparr>ci_cid := 6, ci_addrtype := WEB100_ADDRTYPE_IPV6,
           ci_spec_v6 := \<lparr>dst_port6 = 443, dst_addr6 = ''fe80'', src_port6 = 5000,
                          src_addr6 = ''fe81''\<rparr>\<rparr>"
  have h4: "tuple_match ?b ?a"
    by (simp add: tuple_match_def bzero_info_def)
  have h6: "tuple_match ?b6 ?a6"
    by (simp add: tuple_match_def bzero_info_def)
  have some: "\<exists>c\<in>set [?c]. ci_ino c = ci_ino ?b"
    by (simp add: bzero_info_def)
  have none: "\<forall>c\<in>set []. ci_ino c \<noteq> ci_ino ?b6"
    by simp
  from matched_entry_records [OF h4, of "[]" "[]" "[]" "[]" "[?c]"] some
  have r4: "collate [?a] [?b] [?c] [] = [fd_record ?a ?b ?c]"
    by (simp add: bzero_info_def)
  from matched_entry_records [OF h6, of "[]" "[]" "[]" "[]" "[]"] none
  have r6: "collate [?a6] [?b6] [] [] = [nofd_record ?a6 ?b6]"
    by simp
  show ?thesis
    unfolding r4 r6
    by (simp add: fd_record_def nofd_record_def copy_spec_def bzero_info_def Let_def
        strncpy_def c_str_def)
qed

end
